theory Spec2Isabelle
  imports Complex_Main
begin

section \<open>JavaScript numbers\<close>

text \<open>
  The simulation computes with JavaScript numbers. A finite number is modelled by the
  real it denotes (rounding, overflow and the sign of zero are left out); the three
  non-finite values are kept, since division by zero and \<open>Math.pow\<close>, \<open>Math.sqrt\<close>,
  \<open>Math.sin\<close> and \<open>Math.cos\<close> produce them instead of raising. A division of a non-zero
  number by zero takes the sign of the numerator, as for the positive zero.
\<close>

datatype jsnum = Fin real | PInf | NInf | NaN

fun js_neg :: "jsnum \<Rightarrow> jsnum" where
  "js_neg (Fin a) = Fin (- a)"
| "js_neg PInf = NInf"
| "js_neg NInf = PInf"
| "js_neg NaN = NaN"

fun js_add :: "jsnum \<Rightarrow> jsnum \<Rightarrow> jsnum" where
  "js_add (Fin a) (Fin b) = Fin (a + b)"
| "js_add NaN y = NaN"
| "js_add x NaN = NaN"
| "js_add PInf NInf = NaN"
| "js_add NInf PInf = NaN"
| "js_add PInf y = PInf"
| "js_add x PInf = PInf"
| "js_add NInf y = NInf"
| "js_add x NInf = NInf"

definition js_sub :: "jsnum \<Rightarrow> jsnum \<Rightarrow> jsnum" where
  "js_sub x y = js_add x (js_neg y)"

text \<open>The infinity of the sign of a non-zero real; \<open>NaN\<close> for zero.\<close>

definition inf_of_sign :: "real \<Rightarrow> jsnum" where
  "inf_of_sign s = (if s = 0 then NaN else if 0 < s then PInf else NInf)"

fun js_mul :: "jsnum \<Rightarrow> jsnum \<Rightarrow> jsnum" where
  "js_mul (Fin a) (Fin b) = Fin (a * b)"
| "js_mul NaN y = NaN"
| "js_mul x NaN = NaN"
| "js_mul (Fin a) PInf = inf_of_sign a"
| "js_mul (Fin a) NInf = inf_of_sign (- a)"
| "js_mul PInf (Fin b) = inf_of_sign b"
| "js_mul NInf (Fin b) = inf_of_sign (- b)"
| "js_mul PInf PInf = PInf"
| "js_mul PInf NInf = NInf"
| "js_mul NInf PInf = NInf"
| "js_mul NInf NInf = PInf"

fun js_div :: "jsnum \<Rightarrow> jsnum \<Rightarrow> jsnum" where
  "js_div (Fin a) (Fin b) = (if b = 0 then inf_of_sign a else Fin (a / b))"
| "js_div NaN y = NaN"
| "js_div x NaN = NaN"
| "js_div (Fin a) PInf = Fin 0"
| "js_div (Fin a) NInf = Fin 0"
| "js_div PInf (Fin b) = (if 0 \<le> b then PInf else NInf)"
| "js_div NInf (Fin b) = (if 0 \<le> b then NInf else PInf)"
| "js_div PInf PInf = NaN"
| "js_div PInf NInf = NaN"
| "js_div NInf PInf = NaN"
| "js_div NInf NInf = NaN"

text \<open>\<open>Math.abs\<close>, \<open>Math.sin\<close>, \<open>Math.cos\<close>, \<open>Math.sqrt\<close>.\<close>

fun Math_abs :: "jsnum \<Rightarrow> jsnum" where
  "Math_abs (Fin a) = Fin \<bar>a\<bar>"
| "Math_abs PInf = PInf"
| "Math_abs NInf = PInf"
| "Math_abs NaN = NaN"

fun Math_sin :: "jsnum \<Rightarrow> jsnum" where
  "Math_sin (Fin a) = Fin (sin a)"
| "Math_sin x = NaN"

fun Math_cos :: "jsnum \<Rightarrow> jsnum" where
  "Math_cos (Fin a) = Fin (cos a)"
| "Math_cos x = NaN"

fun Math_sqrt :: "jsnum \<Rightarrow> jsnum" where
  "Math_sqrt (Fin a) = (if a < 0 then NaN else Fin (sqrt a))"
| "Math_sqrt PInf = PInf"
| "Math_sqrt x = NaN"

text \<open>
  \<open>Math.pow(x, 1.5)\<close>, the only use of \<open>Math.pow\<close> in the orbit code: a negative base
  with a fractional exponent is \<open>NaN\<close>, zero stays zero, both infinities give \<open>+Infinity\<close>.
\<close>

fun Math_pow_1_5 :: "jsnum \<Rightarrow> jsnum" where
  "Math_pow_1_5 (Fin a) = (if a < 0 then NaN else Fin (a powr 1.5))"
| "Math_pow_1_5 PInf = PInf"
| "Math_pow_1_5 NInf = PInf"
| "Math_pow_1_5 NaN = NaN"

text \<open>The comparison \<open>x > y\<close>: false as soon as one side is \<open>NaN\<close>.\<close>

fun js_gt :: "jsnum \<Rightarrow> jsnum \<Rightarrow> bool" where
  "js_gt (Fin a) (Fin b) = (b < a)"
| "js_gt NaN y = False"
| "js_gt x NaN = False"
| "js_gt PInf PInf = False"
| "js_gt PInf y = True"
| "js_gt x PInf = False"
| "js_gt NInf y = False"
| "js_gt x NInf = True"

text \<open>
  \<open>v || d\<close> for a numeric property that may be absent: \<open>undefined\<close> (\<open>None\<close>), zero and
  \<open>NaN\<close> are falsy and give the default.
\<close>

fun js_or_default :: "jsnum option \<Rightarrow> jsnum \<Rightarrow> jsnum" where
  "js_or_default None d = d"
| "js_or_default (Some (Fin a)) d = (if a = 0 then d else Fin a)"
| "js_or_default (Some NaN) d = d"
| "js_or_default (Some x) d = x"

section \<open>Vectors\<close>

text \<open>
  \<open>THREE.Vector3\<close> with the methods the pose update calls; the fields \<open>x\<close>, \<open>y\<close>, \<open>z\<close>
  are \<open>vx\<close>, \<open>vy\<close>, \<open>vz\<close> here.
\<close>

record Vector3 =
  vx :: jsnum
  vy :: jsnum
  vz :: jsnum

definition vec3 :: "jsnum \<Rightarrow> jsnum \<Rightarrow> jsnum \<Rightarrow> Vector3" where
  "vec3 a b c = \<lparr>vx = a, vy = b, vz = c\<rparr>"

definition multiplyScalar :: "Vector3 \<Rightarrow> jsnum \<Rightarrow> Vector3" where
  "multiplyScalar v s = vec3 (js_mul (vx v) s) (js_mul (vy v) s) (js_mul (vz v) s)"

definition divide :: "Vector3 \<Rightarrow> Vector3 \<Rightarrow> Vector3" where
  "divide v w = vec3 (js_div (vx v) (vx w)) (js_div (vy v) (vy w)) (js_div (vz v) (vz w))"

section \<open>Configuration\<close>

definition SATELLITE_DIST_FACTOR :: jsnum where
  "SATELLITE_DIST_FACTOR = Fin 50.0"

definition DEG_TO_RAD :: jsnum where
  "DEG_TO_RAD = js_div (Fin pi) (Fin 180)"

record SETTINGS =
  planetVisualScale :: real
  universeScale :: real

definition DEFAULTS :: SETTINGS where
  "DEFAULTS = \<lparr>planetVisualScale = 5.0, universeScale = 2.0\<rparr>"

text \<open>
  Orbital elements of a body (the fields \<open>a\<close>, \<open>e\<close>, \<open>i\<close>, \<open>L\<close>, \<open>w\<close>, \<open>o\<close> of the source,
  prefixed); the configured values are finite literals.
\<close>

record elements =
  el_a :: real
  el_e :: real
  el_i :: real
  el_L :: real
  el_w :: real
  el_o :: real

text \<open>
  The fields of a body's configuration entry that the pose update reads. An absent
  \<open>distanceFactor\<close> is \<open>None\<close>; \<open>isStar\<close> is false when the entry does not set it.
\<close>

record body_data =
  name :: string
  radius :: real
  elements :: elements
  rotPeriod :: real
  distanceFactor :: "real option"
  isStar :: bool

section \<open>Time\<close>

text \<open>
  A valid \<open>Date\<close> as the two readings \<open>getJulianDate\<close> takes from it: \<open>getTime()\<close>, the
  milliseconds since the Unix epoch in UTC, which identifies the instant, and
  \<open>getTimezoneOffset()\<close>, the minutes by which UTC is ahead of the host's local time.
\<close>

record Date =
  getTime :: real
  getTimezoneOffset :: real

definition getJulianDate :: "Date \<Rightarrow> real" where
  "getJulianDate date =
     getTime date / 86400000 - getTimezoneOffset date / 1440 + 2440587.5"

section \<open>Orbit propagation\<close>

definition getMeanAnomaly :: "elements \<Rightarrow> real \<Rightarrow> jsnum" where
  "getMeanAnomaly els jd =
     (let n = js_div (Fin 0.9856076686) (Math_pow_1_5 (Fin (el_a els)));
          daysSinceJ2000 = js_sub (Fin jd) (Fin 2451545.0);
          currentL = js_add (Fin (el_L els)) (js_mul n daysSinceJ2000)
      in js_sub currentL (Fin (el_w els)))"

text \<open>
  The Newton--Raphson loop of \<open>getOrbitPosition\<close> on its three variables; the result is
  their value when the loop condition fails.
\<close>

function kepler_loop :: "jsnum \<Rightarrow> jsnum \<Rightarrow> jsnum \<times> jsnum \<times> nat \<Rightarrow> jsnum \<times> jsnum \<times> nat" where
  "kepler_loop e M (E, delta, iter) =
     (if js_gt (Math_abs delta) (Fin (1 / 10 ^ 6)) \<and> iter < 100 then
        (let delta' = js_div (js_sub (js_sub E (js_mul e (Math_sin E))) M)
                             (js_sub (Fin 1) (js_mul e (Math_cos E)));
             E' = js_sub E delta'
         in kepler_loop e M (E', delta', iter + 1))
      else (E, delta, iter))"
  by pat_completeness auto
termination
  by (relation "measure (\<lambda>(e, M, E, delta, iter). 100 - iter)") auto

declare kepler_loop.simps [simp del]

text \<open>The part of \<open>getOrbitPosition\<close> after the loop, on the eccentric anomaly found.\<close>

definition orbit_frame :: "elements \<Rightarrow> jsnum \<Rightarrow> Vector3" where
  "orbit_frame els E =
     (let e = Fin (el_e els);
          a = Fin (el_a els);
          X_orb = js_mul a (js_sub (Math_cos E) e);
          Y_orb = js_mul (js_mul a (Math_sqrt (js_sub (Fin 1) (js_mul e e)))) (Math_sin E);
          i_rad = js_mul (Fin (el_i els)) DEG_TO_RAD;
          o_rad = js_mul (Fin (el_o els)) DEG_TO_RAD;
          w_rad = js_mul (js_sub (Fin (el_w els)) (Fin (el_o els))) DEG_TO_RAD;
          cos_o = Math_cos o_rad;
          sin_o = Math_sin o_rad;
          cos_w = Math_cos w_rad;
          sin_w = Math_sin w_rad;
          cos_i = Math_cos i_rad;
          sin_i = Math_sin i_rad;
          x_ecl =
            js_add
              (js_mul (js_sub (js_mul cos_o cos_w) (js_mul (js_mul sin_o sin_w) cos_i)) X_orb)
              (js_mul (js_sub (js_mul (js_neg cos_o) sin_w) (js_mul (js_mul sin_o cos_w) cos_i))
                 Y_orb);
          y_ecl =
            js_add
              (js_mul (js_add (js_mul sin_o cos_w) (js_mul (js_mul cos_o sin_w) cos_i)) X_orb)
              (js_mul (js_add (js_mul (js_neg sin_o) sin_w) (js_mul (js_mul cos_o cos_w) cos_i))
                 Y_orb);
          z_ecl = js_add (js_mul (js_mul sin_w sin_i) X_orb) (js_mul (js_mul cos_w sin_i) Y_orb)
      in vec3 x_ecl z_ecl y_ecl)"

definition getOrbitPosition :: "elements \<Rightarrow> jsnum \<Rightarrow> Vector3" where
  "getOrbitPosition els M_degrees =
     (let e = Fin (el_e els);
          M = js_mul M_degrees DEG_TO_RAD;
          E = fst (kepler_loop e M (M, Fin 1.0, 0))
      in orbit_frame els E)"

section \<open>Scene objects\<close>

text \<open>
  Of a \<open>THREE.Mesh\<close> the pose update writes \<open>position\<close>, \<open>rotation.y\<close> and \<open>scale\<close>; of an
  orbit line it writes the scale only, so a body's \<open>orbitLine\<close> is that scale, and \<open>None\<close>
  when the body has no line. A new object of the library has position \<open>(0, 0, 0)\<close>,
  rotation \<open>0\<close> and scale \<open>(1, 1, 1)\<close>.
\<close>

record Mesh =
  position :: Vector3
  rotation_y :: jsnum
  scale :: Vector3

definition new_Mesh :: Mesh where
  "new_Mesh = \<lparr>position = vec3 (Fin 0) (Fin 0) (Fin 0), rotation_y = Fin 0,
               scale = vec3 (Fin 1) (Fin 1) (Fin 1)\<rparr>"

text \<open>An entry of the body table with its \<open>satellites\<close> list (empty when absent).\<close>

datatype celestial_body = CelestialBody (cfg: body_data) (cfg_satellites: "celestial_body list")

text \<open>The object \<open>createCelestialBody\<close> returns: \<open>{mesh, data, orbitLine, satellites}\<close>.\<close>

datatype body_obj =
  BodyObj (mesh: Mesh) (data: body_data) (orbitLine: "Vector3 option")
    (satellites: "body_obj list")

text \<open>
  \<open>createCelestialBody\<close>, without materials, shadows, rings and the points of the orbit
  line: the mesh starts with the body's radius as its scale, a line is made when
  \<open>a > 0\<close>, and every satellite is created with this mesh as its parent.
\<close>

fun createCelestialBody :: "celestial_body \<Rightarrow> body_obj" where
  "createCelestialBody (CelestialBody d sats) =
     (let r = Fin (radius d);
          m = new_Mesh\<lparr>scale := vec3 r r r\<rparr>;
          line = (if 0 < el_a (elements d) then Some (vec3 (Fin 1) (Fin 1) (Fin 1)) else None)
      in BodyObj m d line (map createCelestialBody sats))"

section \<open>Pose update\<close>

text \<open>
  The body of \<open>updateBodyPhysics\<close> before it visits the satellites. \<open>parent\<close> is
  \<open>mesh.parent\<close> when that object is a mesh (\<open>isSatellite\<close>), and \<open>None\<close> when it is the
  scene. The result is the mesh and the orbit line as the function leaves them.
\<close>

definition body_pose ::
  "SETTINGS \<Rightarrow> Mesh option \<Rightarrow> real \<Rightarrow> real \<Rightarrow> Mesh \<Rightarrow> body_data \<Rightarrow> Vector3 option
     \<Rightarrow> Mesh \<times> Vector3 option" where
  "body_pose S parent jd hoursPassed m d line =
     (let distFactor = js_or_default (map_option Fin (distanceFactor d)) SATELLITE_DIST_FACTOR;
          m1 =
            (if \<not> isStar d then
               (let currentM = getMeanAnomaly (elements d) jd;
                    pos = getOrbitPosition (elements d) currentM;
                    pos1 = multiplyScalar pos (Fin (universeScale S));
                    pos2 = (case parent of
                              Some p \<Rightarrow> divide (multiplyScalar pos1 distFactor) (scale p)
                            | None \<Rightarrow> pos1)
                in m\<lparr>position := pos2\<rparr>)
             else m);
          rotationAngle =
            js_mul (js_div (Fin hoursPassed) (Fin (rotPeriod d))) (js_mul (Fin pi) (Fin 2));
          m2 = m1\<lparr>rotation_y := rotationAngle\<rparr>;
          globalScale = js_mul (Fin (radius d)) (Fin (planetVisualScale S))
      in case parent of
           Some p \<Rightarrow>
             (let parentScale = vx (scale p);
                  relativeScale = js_div globalScale parentScale;
                  desiredOrbitScale = js_mul (Fin (universeScale S)) distFactor;
                  relativeOrbitScale = js_div desiredOrbitScale parentScale
              in (m2\<lparr>scale := vec3 relativeScale relativeScale relativeScale\<rparr>,
                  map_option
                    (\<lambda>l. vec3 relativeOrbitScale relativeOrbitScale relativeOrbitScale) line))
         | None \<Rightarrow>
             (let u = Fin (universeScale S)
              in (m2\<lparr>scale := vec3 globalScale globalScale globalScale\<rparr>,
                  map_option (\<lambda>l. vec3 u u u) line)))"

text \<open>
  \<open>updateBodyPhysics\<close>: the pose of the body, then of each satellite, whose parent is the
  mesh just updated.
\<close>

fun updateBodyPhysics :: "SETTINGS \<Rightarrow> Mesh option \<Rightarrow> real \<Rightarrow> real \<Rightarrow> body_obj \<Rightarrow> body_obj" where
  "updateBodyPhysics S parent jd hoursPassed (BodyObj m d line sats) =
     (case body_pose S parent jd hoursPassed m d line of
        (m', line') \<Rightarrow>
          BodyObj m' d line' (map (updateBodyPhysics S (Some m') jd hoursPassed) sats))"

text \<open>\<open>updatePhysics\<close> on the bodies of the scene (the meteoroids are left out).\<close>

definition updatePhysics :: "SETTINGS \<Rightarrow> Date \<Rightarrow> body_obj list \<Rightarrow> body_obj list" where
  "updatePhysics S simulationDate activeBodies =
     (let jd = getJulianDate simulationDate;
          hoursPassed = getTime simulationDate / 3600000
      in map (updateBodyPhysics S None jd hoursPassed) activeBodies)"

section \<open>The body table\<close>

text \<open>The entries of \<open>CELESTIAL_BODIES\<close>, with the fields the pose update reads.\<close>

definition Sun :: body_data where
  "Sun =
     \<lparr>name = ''Sun'', radius = 0.05,
      elements = \<lparr>el_a = 0, el_e = 0, el_i = 0, el_L = 0, el_w = 0, el_o = 0\<rparr>,
      rotPeriod = 600, distanceFactor = None,
      isStar = True\<rparr>"

definition Mercury :: body_data where
  "Mercury =
     \<lparr>name = ''Mercury'', radius = 0.005,
      elements = \<lparr>el_a = 0.387098, el_e = 0.20563, el_i = 7.00487, el_L = 252.25084, el_w = 77.45645, el_o = 48.33167\<rparr>,
      rotPeriod = 1407.6, distanceFactor = None,
      isStar = False\<rparr>"

definition Venus :: body_data where
  "Venus =
     \<lparr>name = ''Venus'', radius = 0.012,
      elements = \<lparr>el_a = 0.723332, el_e = 0.006773, el_i = 3.39471, el_L = 181.97973, el_w = 131.53298, el_o = 76.68069\<rparr>,
      rotPeriod = - 5832.5, distanceFactor = None,
      isStar = False\<rparr>"

definition Earth :: body_data where
  "Earth =
     \<lparr>name = ''Earth'', radius = 0.013,
      elements = \<lparr>el_a = 1.0, el_e = 0.016708, el_i = 0.00005, el_L = 100.46435, el_w = 102.94719, el_o = 0\<rparr>,
      rotPeriod = 23.9, distanceFactor = None,
      isStar = False\<rparr>"

definition Moon :: body_data where
  "Moon =
     \<lparr>name = ''Moon'', radius = 0.0035,
      elements = \<lparr>el_a = 0.00257, el_e = 0.0549, el_i = 5.145, el_L = 218.31617, el_w = 318.15, el_o = 125.08\<rparr>,
      rotPeriod = 655.7, distanceFactor = Some 50.0,
      isStar = False\<rparr>"

definition Mars :: body_data where
  "Mars =
     \<lparr>name = ''Mars'', radius = 0.007,
      elements = \<lparr>el_a = 1.523679, el_e = 0.0934, el_i = 1.85, el_L = - 4.55, el_w = 336.04, el_o = 49.57854\<rparr>,
      rotPeriod = 24.6, distanceFactor = None,
      isStar = False\<rparr>"

definition Jupiter :: body_data where
  "Jupiter =
     \<lparr>name = ''Jupiter'', radius = 0.04,
      elements = \<lparr>el_a = 5.204267, el_e = 0.048498, el_i = 1.3053, el_L = 34.40438, el_w = 14.75385, el_o = 100.55615\<rparr>,
      rotPeriod = 9.9, distanceFactor = None,
      isStar = False\<rparr>"

definition Europa :: body_data where
  "Europa =
     \<lparr>name = ''Europa'', radius = 0.0035,
      elements = \<lparr>el_a = 0.00449, el_e = 0.009, el_i = 0.47, el_L = 200.39, el_w = 44.0, el_o = 219.106\<rparr>,
      rotPeriod = 85.2, distanceFactor = Some 100.0,
      isStar = False\<rparr>"

definition Saturn :: body_data where
  "Saturn =
     \<lparr>name = ''Saturn'', radius = 0.035,
      elements = \<lparr>el_a = 9.582017, el_e = 0.055546, el_i = 2.485, el_L = 49.94432, el_w = 92.43194, el_o = 113.71504\<rparr>,
      rotPeriod = 10.7, distanceFactor = None,
      isStar = False\<rparr>"

definition Uranus :: body_data where
  "Uranus =
     \<lparr>name = ''Uranus'', radius = 0.02,
      elements = \<lparr>el_a = 19.2184, el_e = 0.047318, el_i = 0.773, el_L = 313.23218, el_w = 170.96424, el_o = 74.22988\<rparr>,
      rotPeriod = - 17.2, distanceFactor = None,
      isStar = False\<rparr>"

definition Neptune :: body_data where
  "Neptune =
     \<lparr>name = ''Neptune'', radius = 0.02,
      elements = \<lparr>el_a = 30.0709, el_e = 0.008606, el_i = 1.77, el_L = - 55.12, el_w = 44.97135, el_o = 131.7806\<rparr>,
      rotPeriod = 16.1, distanceFactor = None,
      isStar = False\<rparr>"

definition CELESTIAL_BODIES :: "celestial_body list" where
  "CELESTIAL_BODIES =
     [CelestialBody Sun [], CelestialBody Mercury [], CelestialBody Venus [],
      CelestialBody Earth [CelestialBody Moon []], CelestialBody Mars [],
      CelestialBody Jupiter [CelestialBody Europa []], CelestialBody Saturn [],
      CelestialBody Uranus [], CelestialBody Neptune []]"

text \<open>\<open>createSolarSystem\<close>: one object per entry, each with the scene as its parent.\<close>

definition createSolarSystem :: "body_obj list" where
  "createSolarSystem = map createCelestialBody CELESTIAL_BODIES"

text \<open>Every entry of a table, satellites included.\<close>

fun all_bodies :: "celestial_body \<Rightarrow> body_data list" where
  "all_bodies (CelestialBody d sats) = d # concat (map all_bodies sats)"

section \<open>Notions the properties are stated with\<close>

text \<open>
  The Julian Date of an instant given in milliseconds since the Unix epoch, which is
  Julian Date 2440587.5; a day has 86400000 milliseconds.
\<close>

definition julian_date_of_instant :: "real \<Rightarrow> real" where
  "julian_date_of_instant ms = ms / 86400000 + 2440587.5"

text \<open>
  One pass of the loop body of \<open>getOrbitPosition\<close> on the pair \<open>(E, delta)\<close>, and the pair
  after \<open>k\<close> passes from the initial \<open>E = M\<close>, \<open>delta = 1.0\<close>.
\<close>

definition kepler_step :: "jsnum \<Rightarrow> jsnum \<Rightarrow> jsnum \<times> jsnum \<Rightarrow> jsnum \<times> jsnum" where
  "kepler_step e M s =
     (let E = fst s;
          delta' = js_div (js_sub (js_sub E (js_mul e (Math_sin E))) M)
                          (js_sub (Fin 1) (js_mul e (Math_cos E)))
      in (js_sub E delta', delta'))"

definition kepler_iterate :: "jsnum \<Rightarrow> jsnum \<Rightarrow> nat \<Rightarrow> jsnum \<times> jsnum" where
  "kepler_iterate e M k = (kepler_step e M ^^ k) (M, Fin 1.0)"

text \<open>
  The Newton--Raphson update of the eccentric anomaly on the reals, for Kepler's equation
  \<open>E - e sin E = M\<close>.
\<close>

definition newton :: "real \<Rightarrow> real \<Rightarrow> real \<Rightarrow> real" where
  "newton ecc M E = E - (E - ecc * sin E - M) / (1 - ecc * cos E)"

text \<open>The residual of Kepler's equation at \<open>E\<close>.\<close>

definition kepler_residual :: "real \<Rightarrow> real \<Rightarrow> real \<Rightarrow> real" where
  "kepler_residual ecc M E = E - ecc * sin E - M"

text \<open>The elements of the regression fixture: the Earth's, with the eccentricity 0.0167.\<close>

definition fixture_elements :: elements where
  "fixture_elements =
     \<lparr>el_a = 1.0, el_e = 0.0167, el_i = 0.00005, el_L = 100.46435, el_w = 102.94719, el_o = 0\<rparr>"

text \<open>
  A satellite with the elements of the fixture (the Moon's entry otherwise, so its
  \<open>distanceFactor\<close> is 50), and a parent mesh with the scale of the Earth at
  \<open>planetVisualScale = 5\<close>.
\<close>

definition fixture_satellite :: body_data where
  "fixture_satellite = Moon\<lparr>elements := fixture_elements\<rparr>"

definition fixture_parent :: Mesh where
  "fixture_parent = new_Mesh\<lparr>scale := vec3 (Fin 0.065) (Fin 0.065) (Fin 0.065)\<rparr>"

text \<open>The rotations about the third and the first axis, by an angle in radians.\<close>

definition rot_z :: "real \<Rightarrow> real \<times> real \<times> real \<Rightarrow> real \<times> real \<times> real" where
  "rot_z t p =
     (case p of (px, py, pz) \<Rightarrow> (cos t * px - sin t * py, sin t * px + cos t * py, pz))"

definition rot_x :: "real \<Rightarrow> real \<times> real \<times> real \<Rightarrow> real \<times> real \<times> real" where
  "rot_x t p =
     (case p of (px, py, pz) \<Rightarrow> (px, cos t * py - sin t * pz, sin t * py + cos t * pz))"

definition rad :: "real \<Rightarrow> real" where
  "rad d = d * (pi / 180)"

text \<open>
  The ecliptic coordinates of the point of eccentric anomaly \<open>E\<close> on the orbit: the
  perifocal point \<open>(X, Y, 0)\<close> rotated by \<open>w - o\<close> about the third axis, by \<open>i\<close> about the
  first, and by \<open>o\<close> about the third.
\<close>

definition perifocal :: "elements \<Rightarrow> real \<Rightarrow> real \<times> real \<times> real" where
  "perifocal els E =
     (el_a els * (cos E - el_e els), el_a els * sqrt (1 - (el_e els)\<^sup>2) * sin E, 0)"

definition ecliptic :: "elements \<Rightarrow> real \<Rightarrow> real \<times> real \<times> real" where
  "ecliptic els E =
     rot_z (rad (el_o els))
       (rot_x (rad (el_i els)) (rot_z (rad (el_w els - el_o els)) (perifocal els E)))"

text \<open>
  The size of a satellite in the scene along the first axis: the scale of the parent's
  mesh times the scale of its own.
\<close>

definition world_scale :: "Mesh \<Rightarrow> Mesh \<Rightarrow> jsnum" where
  "world_scale parent_mesh sat_mesh = js_mul (vx (scale parent_mesh)) (vx (scale sat_mesh))"

definition origin :: Vector3 where
  "origin = vec3 (Fin 0) (Fin 0) (Fin 0)"

section \<open>Arithmetic on finite numbers\<close>

lemma js_sub_Fin [simp]: "js_sub (Fin p) (Fin q) = Fin (p - q)"
  by (simp add: js_sub_def)

lemma DEG_TO_RAD_Fin: "DEG_TO_RAD = Fin (pi / 180)"
  by (simp add: DEG_TO_RAD_def)

section \<open>The Julian Date\<close>

text \<open>
  C5, as stated, fails: the same instant (\<open>getTime() = 0\<close>) read on a host at UTC and on a
  host one hour east of UTC gives two different results.
\<close>

theorem getJulianDate_timezone_counterexample:
  "getJulianDate \<lparr>getTime = 0, getTimezoneOffset = 0\<rparr>
     \<noteq> getJulianDate \<lparr>getTime = 0, getTimezoneOffset = - 60\<rparr>"
  by (simp add: getJulianDate_def)

text \<open>
  C5, amended: \<open>getJulianDate\<close> returns the Julian Date of the instant minus the local
  time-zone offset in days. It is the Julian Date of the instant exactly when the offset
  is zero, and two dates of the same instant give the same result exactly when their
  offsets are equal.
\<close>

theorem getJulianDate_local:
  "getJulianDate d = julian_date_of_instant (getTime d) - getTimezoneOffset d / 1440
   \<and> (getJulianDate d = julian_date_of_instant (getTime d)) = (getTimezoneOffset d = 0)
   \<and> (getTime d1 = getTime d2 \<longrightarrow>
        (getJulianDate d1 = getJulianDate d2) = (getTimezoneOffset d1 = getTimezoneOffset d2))"
  by (simp add: getJulianDate_def julian_date_of_instant_def)

theorem getJulianDate_local_witness:
  "getTime \<lparr>getTime = 86400000, getTimezoneOffset = 720\<rparr>
     = getTime \<lparr>getTime = 86400000, getTimezoneOffset = 0\<rparr>
   \<and> getJulianDate \<lparr>getTime = 86400000, getTimezoneOffset = 720\<rparr> = 2440588
   \<and> getJulianDate \<lparr>getTime = 86400000, getTimezoneOffset = 0\<rparr> = 2440588.5
   \<and> getJulianDate \<lparr>getTime = 86400000, getTimezoneOffset = 720\<rparr>
       \<noteq> getJulianDate \<lparr>getTime = 86400000, getTimezoneOffset = 0\<rparr>"
  using getJulianDate_local [of "\<lparr>getTime = 86400000, getTimezoneOffset = 720\<rparr>"
      "\<lparr>getTime = 86400000, getTimezoneOffset = 720\<rparr>"
      "\<lparr>getTime = 86400000, getTimezoneOffset = 0\<rparr>"]
    getJulianDate_local [of "\<lparr>getTime = 86400000, getTimezoneOffset = 0\<rparr>"
      "\<lparr>getTime = 86400000, getTimezoneOffset = 0\<rparr>"
      "\<lparr>getTime = 86400000, getTimezoneOffset = 0\<rparr>"]
  by (simp add: julian_date_of_instant_def)

section \<open>The mean anomaly\<close>

text \<open>
  C7: for a body with \<open>a > 0\<close> and any Julian Date \<open>jd\<close>, the mean anomaly is
  \<open>(L + n (jd - 2451545.0)) - w\<close> with the mean motion \<open>n = 0.9856076686 / a^1.5\<close>. The
  function sees the elements and the date only, so planets and moons share the formula.
\<close>

theorem getMeanAnomaly_formula:
  assumes "0 < el_a els"
  shows "getMeanAnomaly els jd =
           Fin ((el_L els + 0.9856076686 / (el_a els powr 1.5) * (jd - 2451545.0)) - el_w els)"
proof -
  have "el_a els powr 1.5 \<noteq> 0"
    using assms by simp
  then show ?thesis
    using assms by (simp add: getMeanAnomaly_def Let_def)
qed

theorem getMeanAnomaly_formula_witness:
  "0 < el_a (elements Earth) \<and> getMeanAnomaly (elements Earth) 2451545.0 = Fin (- 2.48284)"
  using getMeanAnomaly_formula [of "elements Earth" "2451545.0"]
  by (simp add: Earth_def)

section \<open>Non-finite numbers in the orbit computation\<close>

lemma js_add_NaN_right [simp]: "js_add u NaN = NaN"
  by (cases u) simp_all

lemma js_mul_NaN_right [simp]: "js_mul u NaN = NaN"
  by (cases u) simp_all

lemma js_div_NaN_right [simp]: "js_div u NaN = NaN"
  by (cases u) simp_all

lemma js_sub_NaN_left [simp]: "js_sub NaN u = NaN"
  by (simp add: js_sub_def)

lemma js_sub_NaN_right [simp]: "js_sub u NaN = NaN"
  by (simp add: js_sub_def)

lemma js_gt_NaN_right [simp]: "js_gt u NaN = False"
  by (cases u) simp_all

lemma orbit_frame_NaN: "orbit_frame els NaN = vec3 NaN NaN NaN"
  by (simp add: orbit_frame_def Let_def)

lemma kepler_loop_continue:
  assumes "js_gt (Math_abs delta) (Fin (1 / 10 ^ 6))" and "iter < 100"
  shows "kepler_loop ecc M (E, delta, iter) =
           kepler_loop ecc M
             (fst (kepler_step ecc M (E, delta)), snd (kepler_step ecc M (E, delta)), Suc iter)"
  using assms by (subst kepler_loop.simps) (simp add: kepler_step_def Let_def)

lemma kepler_loop_stop:
  assumes "\<not> js_gt (Math_abs delta) (Fin (1 / 10 ^ 6)) \<or> 100 \<le> iter"
  shows "kepler_loop ecc M (E, delta, iter) = (E, delta, iter)"
  using assms by (subst kepler_loop.simps) auto

lemma kepler_step_not_Fin:
  assumes "\<forall>r. E \<noteq> Fin r"
  shows "kepler_step (Fin ecc) M (E, delta) = (NaN, NaN)"
  using assms by (cases E) (simp_all add: kepler_step_def Let_def)

lemma kepler_loop_not_Fin:
  assumes "\<forall>r. M \<noteq> Fin r"
  shows "kepler_loop (Fin ecc) M (M, Fin 1, 0) = (NaN, NaN, 1)"
proof -
  have "kepler_loop (Fin ecc) M (M, Fin 1, 0) = kepler_loop (Fin ecc) M (NaN, NaN, Suc 0)"
    by (subst kepler_loop_continue) (simp_all add: kepler_step_not_Fin [OF assms])
  also have "\<dots> = (NaN, NaN, Suc 0)"
    by (rule kepler_loop_stop) simp
  finally show ?thesis by simp
qed

lemma getOrbitPosition_not_Fin:
  assumes "\<forall>r. M_degrees \<noteq> Fin r"
  shows "getOrbitPosition els M_degrees = vec3 NaN NaN NaN"
proof -
  have "\<forall>r. js_mul M_degrees DEG_TO_RAD \<noteq> Fin r"
    using assms by (cases M_degrees) (simp_all add: DEG_TO_RAD_Fin inf_of_sign_def)
  then show ?thesis
    by (simp add: getOrbitPosition_def Let_def kepler_loop_not_Fin orbit_frame_NaN)
qed

lemma getMeanAnomaly_a_zero:
  assumes "el_a els = 0"
  shows "\<forall>r. getMeanAnomaly els jd \<noteq> Fin r"
  using assms by (simp add: getMeanAnomaly_def Let_def inf_of_sign_def js_sub_def)

lemma multiplyScalar_NaN: "multiplyScalar (vec3 NaN NaN NaN) s = vec3 NaN NaN NaN"
  by (simp add: multiplyScalar_def vec3_def)

lemma divide_NaN: "divide (vec3 NaN NaN NaN) v = vec3 NaN NaN NaN"
  by (simp add: divide_def vec3_def)

section \<open>The Kepler loop\<close>

lemma kepler_loop_trace:
  "\<exists>j. kepler_loop ecc M (E, d, n) =
          (fst ((kepler_step ecc M ^^ j) (E, d)), snd ((kepler_step ecc M ^^ j) (E, d)), n + j)
       \<and> (n + j \<le> 100 \<or> j = 0)
       \<and> (\<forall>k<j. js_gt (Math_abs (snd ((kepler_step ecc M ^^ k) (E, d)))) (Fin (1 / 10 ^ 6)))
       \<and> (n + j < 100 \<longrightarrow>
            \<not> js_gt (Math_abs (snd ((kepler_step ecc M ^^ j) (E, d)))) (Fin (1 / 10 ^ 6)))"
proof (induction ecc M "(E, d, n)" arbitrary: E d n rule: kepler_loop.induct)
  case (1 ecc M E d n)
  show ?case
  proof (cases "js_gt (Math_abs d) (Fin (1 / 10 ^ 6)) \<and> n < 100")
    case False
    then have "kepler_loop ecc M (E, d, n) = (E, d, n)"
      by (intro kepler_loop_stop) auto
    with False show ?thesis
      by (intro exI [of _ 0]) auto
  next
    case True
    obtain E' d' where step: "kepler_step ecc M (E, d) = (E', d')"
      by (cases "kepler_step ecc M (E, d)") auto
    have unfold: "kepler_loop ecc M (E, d, n) = kepler_loop ecc M (E', d', Suc n)"
      using True by (simp add: kepler_loop_continue step)
    have "d' = js_div (js_sub (js_sub E (js_mul ecc (Math_sin E))) M)
                 (js_sub (Fin 1) (js_mul ecc (Math_cos E)))" and "E' = js_sub E d'"
      using step by (auto simp: kepler_step_def Let_def)
    from "1" [OF True this] obtain j where
      j: "kepler_loop ecc M (E', d', n + 1) =
            (fst ((kepler_step ecc M ^^ j) (E', d')), snd ((kepler_step ecc M ^^ j) (E', d')),
             n + 1 + j)"
        "n + 1 + j \<le> 100 \<or> j = 0"
        "\<forall>k<j. js_gt (Math_abs (snd ((kepler_step ecc M ^^ k) (E', d')))) (Fin (1 / 10 ^ 6))"
        "n + 1 + j < 100 \<longrightarrow>
           \<not> js_gt (Math_abs (snd ((kepler_step ecc M ^^ j) (E', d')))) (Fin (1 / 10 ^ 6))"
      by blast
    have pow: "(kepler_step ecc M ^^ Suc k) (E, d) = (kepler_step ecc M ^^ k) (E', d')" for k
      by (simp add: funpow_swap1 step)
    have all: "\<forall>k<Suc j. js_gt (Math_abs (snd ((kepler_step ecc M ^^ k) (E, d)))) (Fin (1 / 10 ^ 6))"
    proof (intro allI impI)
      fix k assume "k < Suc j"
      then show "js_gt (Math_abs (snd ((kepler_step ecc M ^^ k) (E, d)))) (Fin (1 / 10 ^ 6))"
        using True j(3) pow by (cases k) auto
    qed
    show ?thesis
    proof (intro exI [of _ "Suc j"] conjI)
      show "kepler_loop ecc M (E, d, n) =
          (fst ((kepler_step ecc M ^^ Suc j) (E, d)), snd ((kepler_step ecc M ^^ Suc j) (E, d)),
           n + Suc j)"
        using j(1) unfold pow by simp
      show "n + Suc j \<le> 100 \<or> Suc j = 0"
        using j(2) True by auto
      show "\<forall>k<Suc j. js_gt (Math_abs (snd ((kepler_step ecc M ^^ k) (E, d)))) (Fin (1 / 10 ^ 6))"
        by (rule all)
      show "n + Suc j < 100 \<longrightarrow>
          \<not> js_gt (Math_abs (snd ((kepler_step ecc M ^^ Suc j) (E, d)))) (Fin (1 / 10 ^ 6))"
        using j(4) pow by simp
    qed
  qed
qed

lemma kepler_loop_result:
  "(let n = snd (snd (kepler_loop ecc M (M, Fin 1.0, 0)))
    in 1 \<le> n \<and> n \<le> 100
       \<and> kepler_loop ecc M (M, Fin 1.0, 0) =
           (fst (kepler_iterate ecc M n), snd (kepler_iterate ecc M n), n)
       \<and> (\<forall>k<n. js_gt (Math_abs (snd (kepler_iterate ecc M k))) (Fin (1 / 10 ^ 6)))
       \<and> (n < 100 \<longrightarrow> \<not> js_gt (Math_abs (snd (kepler_iterate ecc M n))) (Fin (1 / 10 ^ 6))))"
proof -
  obtain j where
    j: "kepler_loop ecc M (M, Fin 1, 0) =
          (fst ((kepler_step ecc M ^^ j) (M, Fin 1)), snd ((kepler_step ecc M ^^ j) (M, Fin 1)),
           0 + j)"
      "0 + j \<le> 100 \<or> j = 0"
      "\<forall>k<j. js_gt (Math_abs (snd ((kepler_step ecc M ^^ k) (M, Fin 1)))) (Fin (1 / 10 ^ 6))"
      "0 + j < 100 \<longrightarrow>
         \<not> js_gt (Math_abs (snd ((kepler_step ecc M ^^ j) (M, Fin 1)))) (Fin (1 / 10 ^ 6))"
    using kepler_loop_trace [of ecc M M "Fin 1" 0] by blast
  have "j \<noteq> 0"
    using j(4) by (cases j) auto
  then show ?thesis
    using j by (simp add: kepler_iterate_def Let_def)
qed



section \<open>The orbit frame transform\<close>

lemma orbit_frame_Fin:
  assumes "(el_e els)\<^sup>2 \<le> 1"
  shows "orbit_frame els (Fin E) =
           (case ecliptic els E of (xe, ye, ze) \<Rightarrow> vec3 (Fin xe) (Fin ze) (Fin ye))"
proof -
  have "\<not> 1 - el_e els * el_e els < 0"
    using assms by (simp add: power2_eq_square)
  then show ?thesis
    by (simp add: orbit_frame_def Let_def DEG_TO_RAD_Fin ecliptic_def perifocal_def rot_z_def
        rot_x_def rad_def power2_eq_square algebra_simps)
qed

lemma orbit_frame_sqrt_NaN:
  assumes "1 < (el_e els)\<^sup>2"
  shows "orbit_frame els (Fin E) = vec3 NaN NaN NaN"
proof -
  have "1 - el_e els * el_e els < 0"
    using assms by (simp add: power2_eq_square)
  then show ?thesis
    by (simp add: orbit_frame_def Let_def DEG_TO_RAD_Fin)
qed

text \<open>
  C8: for a finite eccentric anomaly \<open>E\<close> and elements with \<open>e\<^sup>2 \<le> 1\<close>, the transform
  takes the perifocal point \<open>X = a (cos E - e)\<close>, \<open>Y = a \<surd>(1 - e\<^sup>2) sin E\<close>, rotates it by
  \<open>w - o\<close> about the third axis, by \<open>i\<close> about the first and by \<open>o\<close> about the third, and
  returns the ecliptic \<open>x\<close>, \<open>z\<close>, \<open>y\<close> in this order: the second component of the result
  is the out-of-plane \<open>z\<close>. For \<open>e\<^sup>2 > 1\<close> the square root, and with it the result, is
  \<open>NaN\<close>.
\<close>

theorem orbit_frame_rotations:
  "((el_e els)\<^sup>2 \<le> 1 \<longrightarrow>
      orbit_frame els (Fin E) =
        (case rot_z (rad (el_o els))
                (rot_x (rad (el_i els))
                   (rot_z (rad (el_w els - el_o els))
                      (el_a els * (cos E - el_e els),
                       el_a els * sqrt (1 - (el_e els)\<^sup>2) * sin E, 0)))
         of (xe, ye, ze) \<Rightarrow> vec3 (Fin xe) (Fin ze) (Fin ye)))
   \<and> (1 < (el_e els)\<^sup>2 \<longrightarrow> orbit_frame els (Fin E) = vec3 NaN NaN NaN)"
  using orbit_frame_Fin [of els E] orbit_frame_sqrt_NaN [of els E]
  by (simp add: ecliptic_def perifocal_def)

theorem orbit_frame_rotations_witness:
  "(el_e (elements Earth))\<^sup>2 \<le> 1
   \<and> orbit_frame (elements Earth) (Fin 0) =
       vec3 (Fin ((1 - 0.016708) * cos (rad 102.94719)))
            (Fin ((1 - 0.016708) * (sin (rad 0.00005) * sin (rad 102.94719))))
            (Fin ((1 - 0.016708) * (cos (rad 0.00005) * sin (rad 102.94719))))
   \<and> 1 < (el_e ((elements Earth)\<lparr>el_e := 2\<rparr>))\<^sup>2
   \<and> orbit_frame ((elements Earth)\<lparr>el_e := 2\<rparr>) (Fin 0) = vec3 NaN NaN NaN"
  using orbit_frame_rotations [of "elements Earth" 0]
    orbit_frame_rotations [of "(elements Earth)\<lparr>el_e := 2\<rparr>" 0]
  by (simp add: Earth_def rot_z_def rot_x_def power2_eq_square rad_def [of 0] mult_ac)

section \<open>The parts of a pose\<close>

lemma body_pose_star_position:
  "isStar d \<Longrightarrow> position (fst (body_pose S parent jd h m d line)) = position m"
  by (simp add: body_pose_def Let_def split: option.split)

lemma body_pose_position_sat:
  "\<not> isStar d \<Longrightarrow>
   position (fst (body_pose S (Some p) jd h m d line)) =
     divide
       (multiplyScalar
          (multiplyScalar (getOrbitPosition (elements d) (getMeanAnomaly (elements d) jd))
             (Fin (universeScale S)))
          (js_or_default (map_option Fin (distanceFactor d)) SATELLITE_DIST_FACTOR))
       (scale p)"
  by (simp add: body_pose_def Let_def)

lemma body_pose_position_top:
  "\<not> isStar d \<Longrightarrow>
   position (fst (body_pose S None jd h m d line)) =
     multiplyScalar (getOrbitPosition (elements d) (getMeanAnomaly (elements d) jd))
       (Fin (universeScale S))"
  by (simp add: body_pose_def Let_def)

lemma body_pose_a_zero:
  assumes "\<not> isStar d" and "el_a (elements d) = 0"
  shows "position (fst (body_pose S parent jd h m d line)) = vec3 NaN NaN NaN"
proof -
  have pos: "getOrbitPosition (elements d) (getMeanAnomaly (elements d) jd) = vec3 NaN NaN NaN"
    using assms(2) by (intro getOrbitPosition_not_Fin getMeanAnomaly_a_zero)
  show ?thesis
  proof (cases parent)
    case None
    then show ?thesis
      using assms(1) by (simp add: body_pose_position_top pos multiplyScalar_NaN)
  next
    case (Some p)
    then show ?thesis
      using assms(1) by (simp add: body_pose_position_sat pos multiplyScalar_NaN divide_NaN)
  qed
qed

lemma body_pose_scale_sat:
  "scale (fst (body_pose S (Some p) jd h m d line)) =
     (let r = js_div (js_mul (Fin (radius d)) (Fin (planetVisualScale S))) (vx (scale p))
      in vec3 r r r)"
  by (simp add: body_pose_def Let_def)

lemma body_pose_scale_top:
  "scale (fst (body_pose S None jd h m d line)) =
     (let g = js_mul (Fin (radius d)) (Fin (planetVisualScale S)) in vec3 g g g)"
  by (simp add: body_pose_def Let_def)

lemma body_pose_line_sat:
  "snd (body_pose S (Some p) jd h m d line) =
     map_option
       (\<lambda>l. let r = js_div
                     (js_mul (Fin (universeScale S))
                        (js_or_default (map_option Fin (distanceFactor d)) SATELLITE_DIST_FACTOR))
                     (vx (scale p))
            in vec3 r r r) line"
  by (simp add: body_pose_def Let_def)

lemma mesh_updateBodyPhysics:
  "mesh (updateBodyPhysics S parent jd h (BodyObj m d line sats)) =
     fst (body_pose S parent jd h m d line)"
  by (simp add: case_prod_beta)

lemma satellites_updateBodyPhysics:
  "satellites (updateBodyPhysics S parent jd h (BodyObj m d line sats)) =
     map (updateBodyPhysics S (Some (fst (body_pose S parent jd h m d line))) jd h) sats"
  by (simp add: case_prod_beta)

lemma orbitLine_updateBodyPhysics:
  "orbitLine (updateBodyPhysics S parent jd h (BodyObj m d line sats)) =
     snd (body_pose S parent jd h m d line)"
  by (simp add: case_prod_beta)

declare updateBodyPhysics.simps [simp del]

lemma createCelestialBody_BodyObj:
  "createCelestialBody (CelestialBody d cs) =
     BodyObj (new_Mesh\<lparr>scale := vec3 (Fin (radius d)) (Fin (radius d)) (Fin (radius d))\<rparr>) d
       (if 0 < el_a (elements d) then Some (vec3 (Fin 1) (Fin 1) (Fin 1)) else None)
       (map createCelestialBody cs)"
  by (simp add: Let_def)

lemma table_star_iff_a_zero:
  "\<forall>b \<in> set (concat (map all_bodies CELESTIAL_BODIES)). (el_a (elements b) = 0) = isStar b"
  by (simp add: CELESTIAL_BODIES_def Sun_def Mercury_def Venus_def Earth_def Moon_def Mars_def
      Jupiter_def Europa_def Saturn_def Uranus_def Neptune_def)

section \<open>The position of a body\<close>

text \<open>
  C2, as stated, fails: a body with \<open>a = 0\<close> that is not flagged \<open>isStar\<close> (the Earth's
  entry with \<open>a\<close> set to 0) is not placed at the origin by the pose update; its position
  becomes \<open>(NaN, NaN, NaN)\<close>.
\<close>

theorem a_zero_position_counterexample:
  "position
     (mesh (updateBodyPhysics DEFAULTS None 2451545 0
        (createCelestialBody
           (CelestialBody (Earth\<lparr>elements := (elements Earth)\<lparr>el_a := 0\<rparr>\<rparr>) []))))
   \<noteq> origin"
  unfolding createCelestialBody_BodyObj mesh_updateBodyPhysics
  by (subst body_pose_a_zero) (simp_all add: Earth_def origin_def vec3_def)

text \<open>
  C2, amended: for a body flagged \<open>isStar\<close>, at every timestamp, the pose update skips
  the orbit computation: the position stays what it was, which is the origin of the
  parent frame for a body as \<open>createCelestialBody\<close> makes it. In the body table the bodies
  with \<open>a = 0\<close> are exactly those flagged \<open>isStar\<close>.
\<close>

theorem star_position:
  "(isStar d \<longrightarrow>
      position (mesh (updateBodyPhysics S parent jd h (BodyObj m d line sats))) = position m)
   \<and> (isStar d \<longrightarrow>
      position (mesh (updateBodyPhysics S parent jd h (createCelestialBody (CelestialBody d cs))))
        = origin)
   \<and> (\<forall>b \<in> set (concat (map all_bodies CELESTIAL_BODIES)).
        (el_a (elements b) = 0) = isStar b)"
proof (intro conjI impI)
  assume "isStar d"
  then show "position (mesh (updateBodyPhysics S parent jd h (BodyObj m d line sats))) = position m"
    by (simp add: mesh_updateBodyPhysics body_pose_star_position)
next
  assume "isStar d"
  then show "position (mesh (updateBodyPhysics S parent jd h
      (createCelestialBody (CelestialBody d cs)))) = origin"
    unfolding createCelestialBody_BodyObj
    by (simp add: mesh_updateBodyPhysics body_pose_star_position new_Mesh_def origin_def)
next
  show "\<forall>b \<in> set (concat (map all_bodies CELESTIAL_BODIES)). (el_a (elements b) = 0) = isStar b"
    by (rule table_star_iff_a_zero)
qed

theorem star_position_witness:
  "isStar Sun \<and> el_a (elements Sun) = 0
   \<and> Sun \<in> set (concat (map all_bodies CELESTIAL_BODIES))
   \<and> position
       (mesh (updateBodyPhysics DEFAULTS None 2451545 0
          (BodyObj (new_Mesh\<lparr>position := vec3 (Fin 1) (Fin 2) (Fin 3)\<rparr>) Sun None [])))
       = vec3 (Fin 1) (Fin 2) (Fin 3)
   \<and> position
       (mesh (updateBodyPhysics DEFAULTS None 2451545 0
          (createCelestialBody (CelestialBody Sun [])))) = origin"
  using star_position [of Sun DEFAULTS None 2451545 0
      "new_Mesh\<lparr>position := vec3 (Fin 1) (Fin 2) (Fin 3)\<rparr>" None "[]" "[]"]
  by (simp add: Sun_def CELESTIAL_BODIES_def)

text \<open>
  C10: when the \<open>distanceFactor\<close> of a satellite is absent or 0, its position is computed
  with the factor 50.0 and its orbit line is scaled with the factor 50.0; and whatever
  the configured \<open>distanceFactor\<close>, the factor used is never 0.
\<close>

theorem distanceFactor_fallback:
  assumes "distanceFactor d = None \<or> distanceFactor d = Some 0"
  shows "(\<not> isStar d \<longrightarrow>
            position (mesh (updateBodyPhysics S (Some p) jd h (BodyObj m d line sats))) =
              divide
                (multiplyScalar
                   (multiplyScalar
                      (getOrbitPosition (elements d) (getMeanAnomaly (elements d) jd))
                      (Fin (universeScale S)))
                   (Fin 50.0))
                (scale p))
         \<and> orbitLine (updateBodyPhysics S (Some p) jd h (BodyObj m d (Some l) sats)) =
             Some (let r = js_div (js_mul (Fin (universeScale S)) (Fin 50.0)) (vx (scale p))
                   in vec3 r r r)
         \<and> js_or_default (map_option Fin (distanceFactor d')) SATELLITE_DIST_FACTOR \<noteq> Fin 0"
proof -
  have f: "js_or_default (map_option Fin (distanceFactor d)) SATELLITE_DIST_FACTOR = Fin 50.0"
    using assms by (auto simp: SATELLITE_DIST_FACTOR_def)
  have nz: "js_or_default (map_option Fin (distanceFactor d')) SATELLITE_DIST_FACTOR \<noteq> Fin 0"
    by (cases "distanceFactor d'") (simp_all add: SATELLITE_DIST_FACTOR_def)
  show ?thesis
    by (simp add: mesh_updateBodyPhysics orbitLine_updateBodyPhysics body_pose_position_sat
        body_pose_line_sat f nz del: js_or_default.simps)
qed

theorem distanceFactor_fallback_witness:
  "distanceFactor (Moon\<lparr>distanceFactor := Some 0\<rparr>) = Some 0
   \<and> \<not> isStar (Moon\<lparr>distanceFactor := Some 0\<rparr>)
   \<and> position
       (mesh (updateBodyPhysics DEFAULTS
          (Some (new_Mesh\<lparr>scale := vec3 (Fin 0.065) (Fin 0.065) (Fin 0.065)\<rparr>)) 2451545 0
          (BodyObj new_Mesh (Moon\<lparr>distanceFactor := Some 0\<rparr>) None []))) =
       divide
         (multiplyScalar
            (multiplyScalar
               (getOrbitPosition (elements Moon) (getMeanAnomaly (elements Moon) 2451545))
               (Fin 2))
            (Fin 50))
         (vec3 (Fin 0.065) (Fin 0.065) (Fin 0.065))
   \<and> orbitLine
       (updateBodyPhysics DEFAULTS
          (Some (new_Mesh\<lparr>scale := vec3 (Fin 0.065) (Fin 0.065) (Fin 0.065)\<rparr>)) 2451545 0
          (BodyObj new_Mesh (Moon\<lparr>distanceFactor := Some 0\<rparr>)
             (Some (vec3 (Fin 1) (Fin 1) (Fin 1))) []))
       = Some (vec3 (Fin (100 / 0.065)) (Fin (100 / 0.065)) (Fin (100 / 0.065)))"
proof -
  have h: "distanceFactor (Moon\<lparr>distanceFactor := Some 0\<rparr>) = None
           \<or> distanceFactor (Moon\<lparr>distanceFactor := Some 0\<rparr>) = Some 0"
    by simp
  have star: "\<not> isStar (Moon\<lparr>distanceFactor := Some 0\<rparr>)"
    by (simp add: Moon_def)
  show ?thesis
    using distanceFactor_fallback [OF h, where S = "DEFAULTS"
        and p = "new_Mesh\<lparr>scale := vec3 (Fin 0.065) (Fin 0.065) (Fin 0.065)\<rparr>"
        and jd = 2451545 and h = 0 and m = new_Mesh and line = None and sats = "[]"
        and l = "vec3 (Fin 1) (Fin 1) (Fin 1)" and d' = Moon]
    by (simp add: star Let_def vec3_def DEFAULTS_def)
qed

section \<open>The scale of a satellite\<close>

lemma satellite_world_scale_parent:
  assumes "vx (scale p) = Fin s" and "s \<noteq> 0"
  shows "world_scale p (mesh (updateBodyPhysics S (Some p) jd h (BodyObj m d line sats))) =
           Fin (radius d * planetVisualScale S)"
  using assms
  by (simp add: mesh_updateBodyPhysics body_pose_scale_sat world_scale_def Let_def vec3_def)

lemma satellite_world_scale_tick:
  assumes "radius d * planetVisualScale S \<noteq> 0" and "k < length sats"
  shows "world_scale (mesh (updateBodyPhysics S None jd h (BodyObj m d line sats)))
           (mesh (satellites (updateBodyPhysics S None jd h (BodyObj m d line sats)) ! k)) =
         Fin (radius (data (sats ! k)) * planetVisualScale S)"
proof -
  obtain ms ds ls ss where sat: "sats ! k = BodyObj ms ds ls ss"
    by (cases "sats ! k") auto
  let ?p = "fst (body_pose S None jd h m d line)"
  have p: "vx (scale ?p) = Fin (radius d * planetVisualScale S)"
    by (simp add: body_pose_scale_top Let_def vec3_def)
  show ?thesis
    using assms satellite_world_scale_parent [OF p assms(1), of S jd h ms ds ls ss]
    by (simp add: mesh_updateBodyPhysics satellites_updateBodyPhysics sat)
qed

lemma earth_moon_BodyObj:
  "createCelestialBody (CelestialBody Earth [CelestialBody Moon []]) =
     BodyObj (new_Mesh\<lparr>scale := vec3 (Fin (radius Earth)) (Fin (radius Earth)) (Fin (radius Earth))\<rparr>)
       Earth (Some (vec3 (Fin 1) (Fin 1) (Fin 1)))
       [BodyObj (new_Mesh\<lparr>scale := vec3 (Fin (radius Moon)) (Fin (radius Moon)) (Fin (radius Moon))\<rparr>)
          Moon (Some (vec3 (Fin 1) (Fin 1) (Fin 1))) []]"
  by (simp add: Let_def Earth_def Moon_def)

text \<open>
  C1, as stated, fails: for the Moon (radius 0.0035) under the Earth (radius 0.013), one
  tick with \<open>planetVisualScale = 5\<close> and one with \<open>planetVisualScale = 10\<close>, all else
  equal, leave two different world-space scales (parent mesh scale times the satellite's
  relative scale).
\<close>

theorem satellite_world_scale_counterexample:
  "world_scale
     (mesh (updateBodyPhysics (DEFAULTS\<lparr>planetVisualScale := 5\<rparr>) None 2451545 0
              (createCelestialBody (CelestialBody Earth [CelestialBody Moon []]))))
     (mesh (satellites
              (updateBodyPhysics (DEFAULTS\<lparr>planetVisualScale := 5\<rparr>) None 2451545 0
                 (createCelestialBody (CelestialBody Earth [CelestialBody Moon []]))) ! 0))
   \<noteq> world_scale
     (mesh (updateBodyPhysics (DEFAULTS\<lparr>planetVisualScale := 10\<rparr>) None 2451545 0
              (createCelestialBody (CelestialBody Earth [CelestialBody Moon []]))))
     (mesh (satellites
              (updateBodyPhysics (DEFAULTS\<lparr>planetVisualScale := 10\<rparr>) None 2451545 0
                 (createCelestialBody (CelestialBody Earth [CelestialBody Moon []]))) ! 0))"
  unfolding earth_moon_BodyObj
  by (subst satellite_world_scale_tick, simp add: Earth_def DEFAULTS_def, simp,
      subst satellite_world_scale_tick, simp add: Earth_def DEFAULTS_def, simp,
      simp add: Moon_def)

text \<open>
  C1, amended: the world-space scale of a satellite (parent mesh scale times the
  satellite's relative scale) is the satellite's radius times \<open>planetVisualScale\<close>,
  whatever the scale of the parent's mesh, provided that scale is finite and not zero;
  so it is after a tick for every satellite of a top-level body whose own scale is not
  zero. The scale is therefore proportional to \<open>planetVisualScale\<close>: 0.0175 at 5 and
  0.035 at 10 for a radius of 0.0035.
\<close>

theorem satellite_world_scale:
  "(vx (scale p) = Fin s \<and> s \<noteq> 0 \<longrightarrow>
      world_scale p (mesh (updateBodyPhysics S (Some p) jd h (BodyObj m d line sats))) =
        Fin (radius d * planetVisualScale S))
   \<and> (radius d * planetVisualScale S \<noteq> 0 \<and> k < length sats \<longrightarrow>
      world_scale (mesh (updateBodyPhysics S None jd h (BodyObj m d line sats)))
        (mesh (satellites (updateBodyPhysics S None jd h (BodyObj m d line sats)) ! k)) =
        Fin (radius (data (sats ! k)) * planetVisualScale S))"
  using satellite_world_scale_parent [of p s S jd h m d line sats]
    satellite_world_scale_tick [of d S k sats jd h m line]
  by blast

theorem satellite_world_scale_witness:
  "world_scale (new_Mesh\<lparr>scale := vec3 (Fin 0.065) (Fin 0.065) (Fin 0.065)\<rparr>)
     (mesh (updateBodyPhysics (DEFAULTS\<lparr>planetVisualScale := 10\<rparr>)
        (Some (new_Mesh\<lparr>scale := vec3 (Fin 0.065) (Fin 0.065) (Fin 0.065)\<rparr>)) 2451545 0
        (BodyObj new_Mesh Moon None [])))
   = Fin 0.035
   \<and> world_scale
     (mesh (updateBodyPhysics (DEFAULTS\<lparr>planetVisualScale := 5\<rparr>) None 2451545 0
              (createCelestialBody (CelestialBody Earth [CelestialBody Moon []]))))
     (mesh (satellites
              (updateBodyPhysics (DEFAULTS\<lparr>planetVisualScale := 5\<rparr>) None 2451545 0
                 (createCelestialBody (CelestialBody Earth [CelestialBody Moon []]))) ! 0))
   = Fin 0.0175
   \<and> world_scale
     (mesh (updateBodyPhysics (DEFAULTS\<lparr>planetVisualScale := 10\<rparr>) None 2451545 0
              (createCelestialBody (CelestialBody Earth [CelestialBody Moon []]))))
     (mesh (satellites
              (updateBodyPhysics (DEFAULTS\<lparr>planetVisualScale := 10\<rparr>) None 2451545 0
                 (createCelestialBody (CelestialBody Earth [CelestialBody Moon []]))) ! 0))
   = Fin 0.035"
proof -
  let ?p = "new_Mesh\<lparr>scale := vec3 (Fin 0.065) (Fin 0.065) (Fin 0.065)\<rparr>"
  have p: "vx (scale ?p) = Fin 0.065 \<and> (0.065 :: real) \<noteq> 0"
    by (simp add: vec3_def)
  have r: "radius Earth * planetVisualScale (DEFAULTS\<lparr>planetVisualScale := 5\<rparr>) \<noteq> 0
           \<and> 0 < length [BodyObj ms Moon ls []]"
    "radius Earth * planetVisualScale (DEFAULTS\<lparr>planetVisualScale := 10\<rparr>) \<noteq> 0
           \<and> 0 < length [BodyObj ms Moon ls []]" for ms ls
    by (simp_all add: Earth_def DEFAULTS_def)
  show ?thesis
    unfolding earth_moon_BodyObj
    using satellite_world_scale [where p = ?p and s = "0.065"
        and S = "DEFAULTS\<lparr>planetVisualScale := 10\<rparr>" and jd = 2451545 and h = 0
        and m = new_Mesh and d = Moon and line = None and sats = "[]"]
      satellite_world_scale [where S = "DEFAULTS\<lparr>planetVisualScale := 5\<rparr>" and d = Earth
        and k = 0 and jd = 2451545 and h = 0
        and sats = "[BodyObj (new_Mesh\<lparr>scale := vec3 (Fin (radius Moon)) (Fin (radius Moon))
             (Fin (radius Moon))\<rparr>) Moon (Some (vec3 (Fin 1) (Fin 1) (Fin 1))) []]"]
      satellite_world_scale [where S = "DEFAULTS\<lparr>planetVisualScale := 10\<rparr>" and d = Earth
        and k = 0 and jd = 2451545 and h = 0
        and sats = "[BodyObj (new_Mesh\<lparr>scale := vec3 (Fin (radius Moon)) (Fin (radius Moon))
             (Fin (radius Moon))\<rparr>) Moon (Some (vec3 (Fin 1) (Fin 1) (Fin 1))) []]"]
      p r
    by (simp add: Moon_def DEFAULTS_def)
qed

section \<open>Bounds on sine, cosine and \<open>\<pi>\<close>\<close>

lemma cos_poly_bound:
  "\<bar>cos x - (\<Sum>m<n. cos_coeff m * x ^ m)\<bar> \<le> \<bar>x\<bar> ^ n / fact n" for x :: real
proof -
  obtain t where "cos x = (\<Sum>m<n. cos_coeff m * x ^ m) + cos (t + 1 / 2 * real n * pi) / fact n * x ^ n"
    using Maclaurin_cos_expansion [of x n] by blast
  then have "\<bar>cos x - (\<Sum>m<n. cos_coeff m * x ^ m)\<bar> = \<bar>cos (t + 1 / 2 * real n * pi)\<bar> * \<bar>x\<bar> ^ n / fact n"
    by (simp add: abs_mult power_abs)
  also have "\<dots> \<le> 1 * \<bar>x\<bar> ^ n / fact n"
    by (intro divide_right_mono mult_right_mono) (simp_all add: abs_le_iff)
  finally show ?thesis by simp
qed

lemma sin_poly_bound:
  "\<bar>sin x - (\<Sum>m<n. sin_coeff m * x ^ m)\<bar> \<le> \<bar>x\<bar> ^ n / fact n" for x :: real
  using Maclaurin_sin_bound [of x n] by (simp add: field_simps)

lemma sum_lessThan_12:
  "(\<Sum>m<(12::nat). f m) =
     f 0 + f 1 + f 2 + f 3 + f 4 + f 5 + f 6 + f 7 + f 8 + f 9 + f 10 + (f 11 :: real)"
  by (simp add: eval_nat_numeral)

lemma cos_coeffs:
  "cos_coeff 0 = 1" "cos_coeff 1 = 0" "cos_coeff 2 = - 1 / 2" "cos_coeff 3 = 0"
  "cos_coeff 4 = 1 / 24" "cos_coeff 5 = 0" "cos_coeff 6 = - 1 / 720" "cos_coeff 7 = 0"
  "cos_coeff 8 = 1 / 40320" "cos_coeff 9 = 0" "cos_coeff 10 = - 1 / 3628800" "cos_coeff 11 = 0"
  by (simp_all add: cos_coeff_def fact_numeral)

lemma cos_poly12:
  "(\<Sum>m<12. cos_coeff m * x ^ m) =
     1 - x^2 / 2 + x^4 / 24 - x^6 / 720 + x^8 / 40320 - x^10 / 3628800" for x :: real
  unfolding sum_lessThan_12 cos_coeffs by simp

lemma cos_bounds12:
  fixes x :: real
  shows "1 - x^2 / 2 + x^4 / 24 - x^6 / 720 + x^8 / 40320 - x^10 / 3628800 - x^12 / 479001600 \<le> cos x"
    and "cos x \<le> 1 - x^2 / 2 + x^4 / 24 - x^6 / 720 + x^8 / 40320 - x^10 / 3628800 + x^12 / 479001600"
proof -
  have "\<bar>cos x - (1 - x^2 / 2 + x^4 / 24 - x^6 / 720 + x^8 / 40320 - x^10 / 3628800)\<bar>
          \<le> x^12 / 479001600"
    using cos_poly_bound [of x 12] unfolding cos_poly12 by (simp add: fact_numeral)
  then show "1 - x^2 / 2 + x^4 / 24 - x^6 / 720 + x^8 / 40320 - x^10 / 3628800 - x^12 / 479001600 \<le> cos x"
    and "cos x \<le> 1 - x^2 / 2 + x^4 / 24 - x^6 / 720 + x^8 / 40320 - x^10 / 3628800 + x^12 / 479001600"
    by linarith+
qed

lemma cos_15707: "0 < cos (1.5707 :: real)"
proof -
  have "(0::real) < 1 - 1.5707^2 / 2 + 1.5707^4 / 24 - 1.5707^6 / 720 + 1.5707^8 / 40320
          - 1.5707^10 / 3628800 - 1.5707^12 / 479001600"
    by (simp add: power_divide)
  then show ?thesis
    using cos_bounds12(1) [of "1.5707"] by linarith
qed

lemma cos_157085: "cos (1.57085 :: real) < 0"
proof -
  have "1 - 1.57085^2 / 2 + 1.57085^4 / 24 - 1.57085^6 / 720 + 1.57085^8 / 40320
          - 1.57085^10 / 3628800 + 1.57085^12 / 479001600 < (0::real)"
    by (simp add: power_divide)
  then show ?thesis
    using cos_bounds12(2) [of "1.57085"] by linarith
qed

lemma pi_gt_31414: "3.1414 < pi"
proof (rule ccontr)
  assume "\<not> 3.1414 < pi"
  then have "pi / 2 \<le> 1.5707"
    by simp
  moreover have "(1.5707::real) \<le> pi"
    using pi_ge_two by simp
  ultimately have "cos 1.5707 \<le> cos (pi / 2)"
    by (intro cos_monotone_0_pi_le) simp_all
  then show False
    using cos_15707 by simp
qed

lemma pi_less_31417: "pi < 3.1417"
proof (rule ccontr)
  assume "\<not> pi < 3.1417"
  then have "1.57085 \<le> pi / 2"
    by simp
  then have "cos (pi / 2) \<le> cos 1.57085"
    by (intro cos_monotone_0_pi_le) simp_all
  then show False
    using cos_157085 by simp
qed

lemma cos_ge_quadratic: "1 - x\<^sup>2 / 2 \<le> cos x" for x :: real
proof -
  have "(\<Sum>m<(2::nat). cos_coeff m * x ^ m) = 1"
    by (simp add: eval_nat_numeral cos_coeff_def)
  then have "\<bar>cos x - 1\<bar> \<le> x\<^sup>2 / 2"
    using cos_poly_bound [of x 2] by (simp add: fact_numeral)
  then show ?thesis
    by linarith
qed

lemma sin_cubic: "\<bar>sin x - x\<bar> \<le> \<bar>x\<bar> ^ 3 / 6" for x :: real
proof -
  have "(\<Sum>m<(3::nat). sin_coeff m * x ^ m) = x"
    by (simp add: eval_nat_numeral sin_coeff_def)
  then show ?thesis
    using sin_poly_bound [of x 3] by (simp add: fact_numeral)
qed

lemma mult_bounds:
  fixes p q :: real
  assumes "0 \<le> p1" "p1 \<le> p" "p \<le> p2" "0 \<le> q1" "q1 \<le> q" "q \<le> q2"
  shows "p1 * q1 \<le> p * q" and "p * q \<le> p2 * q2"
  using assms by (auto intro!: mult_mono)

section \<open>The Kepler loop on finite numbers\<close>

lemma kepler_step_Fin:
  assumes "\<bar>ecc\<bar> < 1"
  shows "kepler_step (Fin ecc) (Fin M) (Fin E, d) =
           (Fin (newton ecc M E), Fin (E - newton ecc M E))"
proof -
  have "\<bar>ecc * cos E\<bar> \<le> \<bar>ecc\<bar>"
    by (simp add: abs_mult mult_left_le)
  then have "1 - ecc * cos E \<noteq> 0"
    using assms by linarith
  then show ?thesis
    by (simp add: kepler_step_def Let_def newton_def)
qed

lemma kepler_iterate_Suc:
  assumes "\<bar>ecc\<bar> < 1"
  shows "kepler_iterate (Fin ecc) (Fin M) (Suc k) =
           (Fin ((newton ecc M ^^ Suc k) M),
            Fin ((newton ecc M ^^ k) M - (newton ecc M ^^ Suc k) M))"
proof (induction k)
  case 0
  show ?case
    using kepler_step_Fin [OF assms, of M M "Fin 1"] by (simp add: kepler_iterate_def)
next
  case (Suc k)
  have "kepler_iterate (Fin ecc) (Fin M) (Suc (Suc k)) =
          kepler_step (Fin ecc) (Fin M) (kepler_iterate (Fin ecc) (Fin M) (Suc k))"
    by (simp add: kepler_iterate_def)
  then show ?case
    unfolding Suc by (simp add: kepler_step_Fin [OF assms])
qed

lemma kepler_loop_Fin:
  assumes "\<bar>ecc\<bar> < 1"
  shows "\<exists>n. kepler_loop (Fin ecc) (Fin M) (Fin M, Fin 1.0, 0) =
               (Fin ((newton ecc M ^^ Suc n) M),
                Fin ((newton ecc M ^^ n) M - (newton ecc M ^^ Suc n) M), Suc n)
             \<and> Suc n \<le> 100
             \<and> (\<forall>k<n. 1 / 10 ^ 6 < \<bar>(newton ecc M ^^ k) M - (newton ecc M ^^ Suc k) M\<bar>)
             \<and> (Suc n < 100 \<longrightarrow>
                  \<bar>(newton ecc M ^^ n) M - (newton ecc M ^^ Suc n) M\<bar> \<le> 1 / 10 ^ 6)"
proof -
  let ?n = "snd (snd (kepler_loop (Fin ecc) (Fin M) (Fin M, Fin 1.0, 0)))"
  have r: "1 \<le> ?n" "?n \<le> 100"
    "kepler_loop (Fin ecc) (Fin M) (Fin M, Fin 1.0, 0) =
       (fst (kepler_iterate (Fin ecc) (Fin M) ?n), snd (kepler_iterate (Fin ecc) (Fin M) ?n), ?n)"
    "\<forall>k<?n. js_gt (Math_abs (snd (kepler_iterate (Fin ecc) (Fin M) k))) (Fin (1 / 10 ^ 6))"
    "?n < 100 \<longrightarrow>
       \<not> js_gt (Math_abs (snd (kepler_iterate (Fin ecc) (Fin M) ?n))) (Fin (1 / 10 ^ 6))"
    using kepler_loop_result [of "Fin ecc" "Fin M"] by (simp_all add: Let_def)
  obtain n where n: "?n = Suc n"
    using r(1) by (cases ?n) auto
  have "\<forall>k<n. 1 / 10 ^ 6 < \<bar>(newton ecc M ^^ k) M - (newton ecc M ^^ Suc k) M\<bar>"
  proof (intro allI impI)
    fix k assume "k < n"
    then have "Suc k < ?n"
      using n by simp
    with r(4) have "js_gt (Math_abs (snd (kepler_iterate (Fin ecc) (Fin M) (Suc k)))) (Fin (1 / 10 ^ 6))"
      by blast
    then show "1 / 10 ^ 6 < \<bar>(newton ecc M ^^ k) M - (newton ecc M ^^ Suc k) M\<bar>"
      by (simp add: kepler_iterate_Suc [OF assms])
  qed
  moreover have "Suc n < 100 \<longrightarrow> \<bar>(newton ecc M ^^ n) M - (newton ecc M ^^ Suc n) M\<bar> \<le> 1 / 10 ^ 6"
    using r(5) unfolding n by (simp add: kepler_iterate_Suc [OF assms] not_less)
  moreover have "kepler_loop (Fin ecc) (Fin M) (Fin M, Fin 1.0, 0) =
      (Fin ((newton ecc M ^^ Suc n) M), Fin ((newton ecc M ^^ n) M - (newton ecc M ^^ Suc n) M), Suc n)"
    using r(3) unfolding n by (simp add: kepler_iterate_Suc [OF assms])
  moreover have "Suc n \<le> 100"
    using r(2) n by simp
  ultimately show ?thesis
    by blast
qed

lemma newton_dist:
  assumes "\<bar>ecc\<bar> < 1"
  shows "newton ecc M E - M = ecc * (sin E - (E - M) * cos E) / (1 - ecc * cos E)"
proof -
  have "\<bar>ecc * cos E\<bar> \<le> \<bar>ecc\<bar>"
    by (simp add: abs_mult mult_left_le)
  then have "1 - ecc * cos E \<noteq> 0"
    using assms by linarith
  then show ?thesis
    by (simp add: newton_def field_simps)
qed

lemma newton_ball:
  assumes "0 \<le> ecc" and "ecc < 1 / 2" and "\<bar>E - M\<bar> \<le> ecc / (1 - 2 * ecc)"
  shows "\<bar>newton ecc M E - M\<bar> \<le> ecc / (1 - 2 * ecc)"
proof -
  let ?r = "ecc / (1 - 2 * ecc)"
  have r0: "0 \<le> ?r"
    using assms by simp
  have den: "1 - ecc \<le> 1 - ecc * cos E"
    using assms(1) by (simp add: mult_left_le)
  have "\<bar>(E - M) * cos E\<bar> \<le> ?r * 1"
    unfolding abs_mult using assms(3) by (intro mult_mono) simp_all
  then have num: "\<bar>sin E - (E - M) * cos E\<bar> \<le> 1 + ?r"
    using abs_sin_le_one [of E] by linarith
  have "\<bar>newton ecc M E - M\<bar> = ecc * \<bar>sin E - (E - M) * cos E\<bar> / (1 - ecc * cos E)"
    using assms den by (subst newton_dist) (simp_all add: abs_mult)
  also have "\<dots> \<le> ecc * (1 + ?r) / (1 - ecc)"
    using assms den num r0 by (intro frac_le mult_left_mono) simp_all
  also have "\<dots> = ?r"
  proof -
    have nz: "1 - 2 * ecc \<noteq> 0" "1 - ecc \<noteq> 0"
      using assms(1,2) by simp_all
    have "1 + ?r = (1 - ecc) / (1 - 2 * ecc)"
      using nz(1) by (simp add: field_simps)
    then show ?thesis
      using nz by simp
  qed
  finally show ?thesis .
qed

lemma newton_near:
  assumes "0 \<le> ecc" and "ecc < 1" and "\<bar>E - M\<bar> \<le> r"
  shows "\<bar>newton ecc M E - M\<bar> \<le> ecc * (\<bar>M\<bar> + 2 * r) / (1 - ecc)"
proof -
  have r0: "0 \<le> r"
    using assms(3) by linarith
  have den: "1 - ecc \<le> 1 - ecc * cos E"
    using assms(1) by (simp add: mult_left_le)
  have "\<bar>(E - M) * cos E\<bar> \<le> r * 1"
    unfolding abs_mult using assms(3) r0 by (intro mult_mono) simp_all
  moreover have "\<bar>sin E\<bar> \<le> \<bar>M\<bar> + r"
    using abs_sin_x_le_abs_x [of E] assms(3) by linarith
  ultimately have num: "\<bar>sin E - (E - M) * cos E\<bar> \<le> \<bar>M\<bar> + 2 * r"
    by linarith
  have "\<bar>newton ecc M E - M\<bar> = ecc * \<bar>sin E - (E - M) * cos E\<bar> / (1 - ecc * cos E)"
    using assms den by (subst newton_dist) (simp_all add: abs_mult)
  also have "\<dots> \<le> ecc * (\<bar>M\<bar> + 2 * r) / (1 - ecc)"
    using assms den num r0 by (intro frac_le mult_left_mono) simp_all
  finally show ?thesis .
qed

lemma newton_iterates_ball:
  assumes "0 \<le> ecc" and "ecc < 1 / 2"
  shows "\<bar>(newton ecc M ^^ k) M - M\<bar> \<le> ecc / (1 - 2 * ecc)"
proof (induction k)
  case 0
  show ?case using assms by simp
next
  case (Suc k)
  then show ?case
    using newton_ball [OF assms] by simp
qed

lemma newton_iterates_near:
  assumes "0 \<le> ecc" and "ecc < 1 / 2"
  shows "\<bar>(newton ecc M ^^ Suc k) M - M\<bar>
           \<le> ecc * (\<bar>M\<bar> + 2 * (ecc / (1 - 2 * ecc))) / (1 - ecc)"
  using newton_near [OF assms(1) _ newton_iterates_ball [OF assms, where M = M and k = k]] assms(2) by simp

lemma getOrbitPosition_Fin:
  assumes "\<bar>el_e els\<bar> < 1"
  shows "\<exists>n. getOrbitPosition els (Fin Md) =
           (case ecliptic els ((newton (el_e els) (rad Md) ^^ Suc n) (rad Md)) of
              (xe, ye, ze) \<Rightarrow> vec3 (Fin xe) (Fin ze) (Fin ye))"
proof -
  obtain n where
    "kepler_loop (Fin (el_e els)) (Fin (rad Md)) (Fin (rad Md), Fin 1.0, 0) =
       (Fin ((newton (el_e els) (rad Md) ^^ Suc n) (rad Md)),
        Fin ((newton (el_e els) (rad Md) ^^ n) (rad Md)
             - (newton (el_e els) (rad Md) ^^ Suc n) (rad Md)), Suc n)"
    using kepler_loop_Fin [OF assms, of "rad Md"] by blast
  moreover have "(el_e els)\<^sup>2 \<le> 1"
    using assms by (simp add: abs_square_le_1)
  ultimately have "getOrbitPosition els (Fin Md) =
      (case ecliptic els ((newton (el_e els) (rad Md) ^^ Suc n) (rad Md)) of
         (xe, ye, ze) \<Rightarrow> vec3 (Fin xe) (Fin ze) (Fin ye))"
    by (simp add: getOrbitPosition_def DEG_TO_RAD_Fin rad_def orbit_frame_Fin)
  then show ?thesis ..
qed

section \<open>Convergence of the Kepler loop\<close>

text \<open>
  For a mean anomaly in \<open>[0, \<pi>]\<close> the first update lands between the root and \<open>\<pi>\<close>, where
  the residual is convex; from there the iterates decrease and stay above \<open>M\<close>, so that
  the corrections add up to at most \<open>\<pi>\<close>, one of the first 32 is at most 0.1, and four
  more updates bring it below \<open>1e-6\<close>. A mean anomaly in \<open>[\<pi>, 2\<pi>)\<close> is the mirror image.
\<close>

lemma sin_tangent_above:
  fixes u v :: real
  assumes "0 \<le> u" "u \<le> pi" "0 \<le> v" "v \<le> pi"
  shows "sin v \<le> sin u + (v - u) * cos u"
proof -
  consider "u < v" | "u = v" | "v < u"
    by linarith
  then show ?thesis
  proof cases
    case 1
    have "\<exists>z. u < z \<and> z < v \<and> sin v - sin u = (v - u) * cos z"
      by (rule MVT2 [OF 1]) (auto intro!: derivative_eq_intros)
    then obtain z where z: "u < z" "z < v" "sin v - sin u = (v - u) * cos z"
      by blast
    have "cos z \<le> cos u"
      using z assms by (intro cos_monotone_0_pi_le) simp_all
    then have "(v - u) * cos z \<le> (v - u) * cos u"
      using 1 by (intro mult_left_mono) simp_all
    then show ?thesis
      using z(3) by linarith
  next
    case 2
    then show ?thesis by simp
  next
    case 3
    have "\<exists>z. v < z \<and> z < u \<and> sin u - sin v = (u - v) * cos z"
      by (rule MVT2 [OF 3]) (auto intro!: derivative_eq_intros)
    then obtain z where z: "v < z" "z < u" "sin u - sin v = (u - v) * cos z"
      by blast
    have "cos u \<le> cos z"
      using z assms by (intro cos_monotone_0_pi_le) simp_all
    then have "(u - v) * cos u \<le> (u - v) * cos z"
      using 3 by (intro mult_left_mono) simp_all
    then show ?thesis
      using z(3) by (simp add: algebra_simps)
  qed
qed

lemma newton_denominator:
  fixes ecc E :: real
  assumes "0 \<le> ecc" "ecc < 1"
  shows "1 - ecc \<le> 1 - ecc * cos E" and "0 < 1 - ecc * cos E"
proof -
  show "1 - ecc \<le> 1 - ecc * cos E"
    using assms(1) by (simp add: mult_left_le)
  then show "0 < 1 - ecc * cos E"
    using assms(2) by linarith
qed

lemma newton_residual:
  assumes "0 \<le> ecc" "ecc < 1"
  shows "kepler_residual ecc M (newton ecc M E) =
           ecc * (sin E - sin (newton ecc M E) - (E - newton ecc M E) * cos E)"
proof -
  have nz: "1 - ecc * cos E \<noteq> 0"
    using newton_denominator(2) [OF assms, of E] by simp
  have "(E - newton ecc M E) * (1 - ecc * cos E) = E - ecc * sin E - M"
    using nz by (simp add: newton_def)
  then show ?thesis
    by (simp add: kepler_residual_def algebra_simps)
qed

lemma newton_lower:
  assumes "0 \<le> ecc" "ecc < 1" "0 \<le> M" "M \<le> E" "E \<le> pi"
  shows "M \<le> newton ecc M E"
proof -
  have "sin M \<le> sin E + (M - E) * cos E"
    using assms by (intro sin_tangent_above) simp_all
  moreover have "0 \<le> sin M"
    using assms by (intro sin_ge_zero) simp_all
  ultimately have "0 \<le> sin E - (E - M) * cos E"
    by (simp add: algebra_simps)
  then have "0 \<le> ecc * (sin E - (E - M) * cos E) / (1 - ecc * cos E)"
    using assms(1) newton_denominator(2) [OF assms(1,2), of E] by simp
  then show ?thesis
    using newton_dist [of ecc M E] assms(1,2) by simp
qed

lemma newton_residual_nonneg:
  assumes "0 \<le> ecc" "ecc < 1" "0 \<le> E" "E \<le> pi"
    and "0 \<le> newton ecc M E" "newton ecc M E \<le> pi"
  shows "0 \<le> kepler_residual ecc M (newton ecc M E)"
proof -
  have "sin (newton ecc M E) \<le> sin E + (newton ecc M E - E) * cos E"
    using assms by (intro sin_tangent_above) simp_all
  then have "0 \<le> sin E - sin (newton ecc M E) - (E - newton ecc M E) * cos E"
    by (simp add: algebra_simps)
  then show ?thesis
    using assms(1) by (simp add: newton_residual [OF assms(1,2)])
qed

lemma newton_step:
  assumes "0 \<le> ecc" "ecc < 1"
  shows "E - newton ecc M E = kepler_residual ecc M E / (1 - ecc * cos E)"
  by (simp add: newton_def kepler_residual_def)

lemma newton_decreasing:
  assumes "0 \<le> ecc" "ecc < 1" "0 \<le> kepler_residual ecc M E"
  shows "newton ecc M E \<le> E"
proof -
  have "0 \<le> kepler_residual ecc M E / (1 - ecc * cos E)"
    using assms(3) newton_denominator(2) [OF assms(1,2), of E] by simp
  then show ?thesis
    using newton_step [OF assms(1,2), of E M] by linarith
qed

lemma newton_residual_bound:
  assumes "0 \<le> ecc" "ecc < 1" "\<bar>E - newton ecc M E\<bar> \<le> t"
  shows "\<bar>kepler_residual ecc M (newton ecc M E)\<bar> \<le> ecc * (t\<^sup>2 / 2 + t ^ 3 / 6)"
proof -
  define dl where "dl = E - newton ecc M E"
  have t: "0 \<le> t" "\<bar>dl\<bar> \<le> t"
    using assms(3) by (simp_all add: dl_def)
  have n: "newton ecc M E = E - dl"
    by (simp add: dl_def)
  have "sin E - sin (E - dl) - dl * cos E = sin E * (1 - cos dl) + cos E * (sin dl - dl)"
    by (simp add: sin_diff algebra_simps)
  moreover have "\<bar>sin E * (1 - cos dl)\<bar> \<le> 1 * (dl\<^sup>2 / 2)"
    unfolding abs_mult using cos_ge_quadratic [of dl]
    by (intro mult_mono) (simp_all add: abs_le_iff)
  moreover have "\<bar>cos E * (sin dl - dl)\<bar> \<le> 1 * (\<bar>dl\<bar> ^ 3 / 6)"
    unfolding abs_mult using sin_cubic [of dl]
    by (intro mult_mono) (simp_all add: abs_le_iff)
  ultimately have "\<bar>sin E - sin (E - dl) - dl * cos E\<bar> \<le> dl\<^sup>2 / 2 + \<bar>dl\<bar> ^ 3 / 6"
    by linarith
  moreover have "dl\<^sup>2 \<le> t\<^sup>2"
    using t by (simp add: abs_le_square_iff [symmetric])
  moreover have "\<bar>dl\<bar> ^ 3 \<le> t ^ 3"
    using t by (intro power_mono) simp_all
  ultimately have "\<bar>sin E - sin (E - dl) - dl * cos E\<bar> \<le> t\<^sup>2 / 2 + t ^ 3 / 6"
    by linarith
  then have "ecc * \<bar>sin E - sin (E - dl) - dl * cos E\<bar> \<le> ecc * (t\<^sup>2 / 2 + t ^ 3 / 6)"
    using assms(1) by (rule mult_left_mono)
  moreover have "kepler_residual ecc M (newton ecc M E) =
      ecc * (sin E - sin (E - dl) - dl * cos E)"
    using newton_residual [OF assms(1,2), of M E] by (simp add: dl_def)
  ultimately show ?thesis
    using assms(1) by (simp add: abs_mult)
qed

lemma newton_next_step:
  assumes "0 \<le> ecc" "ecc \<le> 0.9" "\<bar>E - newton ecc M E\<bar> \<le> t"
  shows "\<bar>newton ecc M E - newton ecc M (newton ecc M E)\<bar> \<le> 9 * (t\<^sup>2 / 2 + t ^ 3 / 6)"
proof -
  have e1: "ecc < 1"
    using assms(2) by simp
  have t: "0 \<le> t"
    using assms(3) by linarith
  then have pos: "0 \<le> t\<^sup>2 / 2 + t ^ 3 / 6"
    by simp
  let ?E' = "newton ecc M E"
  have den: "1 / 10 \<le> 1 - ecc * cos ?E'"
    using newton_denominator(1) [OF assms(1) e1, of ?E'] assms(2) by simp
  have "\<bar>?E' - newton ecc M ?E'\<bar> = \<bar>kepler_residual ecc M ?E'\<bar> / (1 - ecc * cos ?E')"
    using den by (simp add: newton_step [OF assms(1) e1])
  also have "\<dots> \<le> (ecc * (t\<^sup>2 / 2 + t ^ 3 / 6)) / (1 / 10)"
    using newton_residual_bound [OF assms(1) e1 assms(3)] den pos assms(1)
    by (intro frac_le) simp_all
  also have "\<dots> \<le> 9 * (t\<^sup>2 / 2 + t ^ 3 / 6)"
    using mult_right_mono [OF assms(2) pos] by simp
  finally show ?thesis .
qed

lemma cos_107: "cos (1.07 :: real) \<le> 0.49"
proof -
  have "1 - 1.07^2 / 2 + 1.07^4 / 24 - 1.07^6 / 720 + 1.07^8 / 40320
          - 1.07^10 / 3628800 + 1.07^12 / 479001600 \<le> (0.49 :: real)"
    by (simp add: power_divide)
  then show ?thesis
    using cos_bounds12(2) [of "1.07"] by linarith
qed

lemma cos_13: "cos (1.3 :: real) \<le> 0.28"
proof -
  have "1 - 1.3^2 / 2 + 1.3^4 / 24 - 1.3^6 / 720 + 1.3^8 / 40320
          - 1.3^10 / 3628800 + 1.3^12 / 479001600 \<le> (0.28 :: real)"
    by (simp add: power_divide)
  then show ?thesis
    using cos_bounds12(2) [of "1.3"] by linarith
qed

lemma newton_first_le_pi:
  assumes "0 \<le> ecc" "ecc \<le> 0.9" "0 \<le> M" "M \<le> pi"
  shows "newton ecc M M \<le> pi"
proof -
  have e1: "ecc < 1"
    using assms(2) by simp
  define d where "d = 1 - ecc * cos M"
  have d: "0 < d"
    unfolding d_def by (rule newton_denominator(2) [OF assms(1) e1])
  have s: "0 \<le> sin M" "sin M \<le> 1"
    using assms by (simp_all add: sin_ge_zero)
  have "ecc * sin M \<le> 0.9 * 1"
    using assms(1,2) s by (intro mult_mono) simp_all
  then have es: "ecc * sin M \<le> 0.9"
    by simp
  have key: "ecc * sin M \<le> (pi - M) * d"
  proof (cases "cos M \<le> 0")
    case True
    have "sin M = sin (pi - M)"
      by simp
    also have "\<dots> \<le> pi - M"
      using assms by (intro sin_x_le_x) simp
    finally have "sin M \<le> pi - M" .
    moreover have "ecc * sin M \<le> sin M"
      using mult_right_mono [of ecc 1 "sin M"] e1 s(1) by simp
    moreover have "1 \<le> d"
      unfolding d_def using True assms(1) by (simp add: mult_nonneg_nonpos)
    then have "pi - M \<le> (pi - M) * d"
      using mult_left_mono [of 1 d "pi - M"] assms(4) by simp
    ultimately show ?thesis
      by linarith
  next
    case False
    then have c: "0 < cos M"
      by simp
    have half: "M < pi / 2"
    proof (rule ccontr)
      assume "\<not> M < pi / 2"
      then have "cos M \<le> cos (pi / 2)"
        using assms by (intro cos_monotone_0_pi_le) simp_all
      then show False
        using c by simp
    qed
    consider "M \<le> 1.07" | "1.07 \<le> M" "M \<le> 1.3" | "1.3 \<le> M"
      by linarith
    then show ?thesis
    proof cases
      case 1
      have "(1 - ecc * cos M)\<^sup>2 - (1 - (cos M)\<^sup>2) * (1 - ecc\<^sup>2) = (ecc - cos M)\<^sup>2"
        by (simp add: power2_eq_square algebra_simps)
      then have a: "(1 - (cos M)\<^sup>2) * (1 - ecc\<^sup>2) \<le> d\<^sup>2"
        unfolding d_def using zero_le_power2 [of "ecc - cos M"] by linarith
      have "ecc\<^sup>2 \<le> 0.9\<^sup>2"
        using assms(1,2) by (intro power_mono) simp_all
      then have b: "ecc\<^sup>2 \<le> 2.07\<^sup>2 * (1 - ecc\<^sup>2)"
        by (simp add: power2_eq_square)
      have c2: "0 \<le> 1 - (cos M)\<^sup>2"
        using abs_cos_le_one [of M] by (simp add: abs_square_le_1)
      have "(sin M)\<^sup>2 = 1 - (cos M)\<^sup>2"
        using sin_cos_squared_add [of M] by linarith
      then have "(ecc * sin M)\<^sup>2 = ecc\<^sup>2 * (1 - (cos M)\<^sup>2)"
        by (simp only: power_mult_distrib)
      also have "\<dots> \<le> (2.07\<^sup>2 * (1 - ecc\<^sup>2)) * (1 - (cos M)\<^sup>2)"
        using b c2 by (rule mult_right_mono)
      also have "\<dots> = 2.07\<^sup>2 * ((1 - (cos M)\<^sup>2) * (1 - ecc\<^sup>2))"
        by (simp add: algebra_simps)
      also have "\<dots> \<le> 2.07\<^sup>2 * d\<^sup>2"
        using a by (intro mult_left_mono) simp_all
      also have "\<dots> = (2.07 * d)\<^sup>2"
        by (simp only: power_mult_distrib)
      finally have sq: "(ecc * sin M)\<^sup>2 \<le> (2.07 * d)\<^sup>2" .
      have "0 \<le> 2.07 * d"
        using d by simp
      with sq have "ecc * sin M \<le> 2.07 * d"
        by (rule power2_le_imp_le)
      moreover have "2.07 \<le> pi - M"
        using 1 pi_gt_31414 by simp
      then have "2.07 * d \<le> (pi - M) * d"
        using d by (intro mult_right_mono) simp_all
      ultimately show ?thesis
        by (rule order_trans)
    next
      case 2
      have "cos M \<le> cos 1.07"
        using 2 assms by (intro cos_monotone_0_pi_le) simp_all
      then have "cos M \<le> 0.49"
        using cos_107 by linarith
      then have "ecc * cos M \<le> 0.9 * 0.49"
        using assms(1,2) c by (intro mult_mono) simp_all
      then have dl: "0.559 \<le> d"
        by (simp add: d_def)
      have "1.8414 \<le> pi - M"
        using 2 pi_gt_31414 by simp
      then have "1.8414 * 0.559 \<le> (pi - M) * d"
        using dl by (intro mult_mono) simp_all
      moreover have "(0.9 :: real) \<le> 1.8414 * 0.559"
        by simp
      ultimately show ?thesis
        using es by (meson order_trans)
    next
      case 3
      have "cos M \<le> cos 1.3"
        using 3 assms by (intro cos_monotone_0_pi_le) simp_all
      then have "cos M \<le> 0.28"
        using cos_13 by linarith
      then have "ecc * cos M \<le> 0.9 * 0.28"
        using assms(1,2) c by (intro mult_mono) simp_all
      then have dl: "0.748 \<le> d"
        by (simp add: d_def)
      have "1.5707 \<le> pi - M"
        using half pi_gt_31414 by simp
      then have "1.5707 * 0.748 \<le> (pi - M) * d"
        using dl by (intro mult_mono) simp_all
      moreover have "(0.9 :: real) \<le> 1.5707 * 0.748"
        by simp
      ultimately show ?thesis
        using es by (meson order_trans)
    qed
  qed
  have "newton ecc M M = M + ecc * sin M / d"
    by (simp add: newton_def d_def)
  moreover have "ecc * sin M / d \<le> pi - M"
    using key d by (simp only: pos_divide_le_eq)
  ultimately show ?thesis
    by linarith
qed

lemma newton_invariant:
  assumes "0 \<le> ecc" "ecc \<le> 0.9" "0 \<le> M" "M \<le> pi"
  shows "M \<le> (newton ecc M ^^ Suc k) M \<and> (newton ecc M ^^ Suc k) M \<le> pi
         \<and> 0 \<le> kepler_residual ecc M ((newton ecc M ^^ Suc k) M)"
proof (induction k)
  case 0
  have e1: "ecc < 1"
    using assms(2) by simp
  have lo: "M \<le> newton ecc M M"
    using assms e1 by (intro newton_lower) simp_all
  have hi: "newton ecc M M \<le> pi"
    using assms by (rule newton_first_le_pi)
  have "0 \<le> kepler_residual ecc M (newton ecc M M)"
    using assms e1 lo hi by (intro newton_residual_nonneg) simp_all
  with lo hi show ?case
    by simp
next
  case (Suc k)
  have e1: "ecc < 1"
    using assms(2) by simp
  let ?E = "(newton ecc M ^^ Suc k) M"
  have E: "M \<le> ?E" "?E \<le> pi" "0 \<le> kepler_residual ecc M ?E"
    using Suc by simp_all
  have hi: "newton ecc M ?E \<le> pi"
    using newton_decreasing [OF assms(1) e1 E(3)] E(2) by linarith
  have lo: "M \<le> newton ecc M ?E"
    using assms e1 E by (intro newton_lower) simp_all
  have "0 \<le> kepler_residual ecc M (newton ecc M ?E)"
    using assms e1 E lo hi by (intro newton_residual_nonneg) simp_all
  with lo hi show ?case
    by simp
qed

lemma steps_sum:
  fixes u :: "nat \<Rightarrow> real"
  assumes "\<forall>k. 1 \<le> k \<and> k \<le> m \<longrightarrow> c \<le> u k - u (Suc k)"
  shows "real m * c \<le> u 1 - u (Suc m)"
  using assms
proof (induction m)
  case 0
  show ?case by simp
next
  case (Suc m)
  then have "real m * c \<le> u 1 - u (Suc m)" and "c \<le> u (Suc m) - u (Suc (Suc m))"
    by simp_all
  then show ?case
    by (simp add: algebra_simps)
qed

lemma small_step_exists:
  assumes "0 \<le> ecc" "ecc \<le> 0.9" "0 \<le> M" "M \<le> pi"
  shows "\<exists>k. 1 \<le> k \<and> k \<le> 32
           \<and> \<bar>(newton ecc M ^^ k) M - (newton ecc M ^^ Suc k) M\<bar> \<le> 0.1"
proof (rule ccontr)
  assume "\<not> ?thesis"
  then have big: "\<forall>k. 1 \<le> k \<and> k \<le> 32 \<longrightarrow>
      0.1 < \<bar>(newton ecc M ^^ k) M - (newton ecc M ^^ Suc k) M\<bar>"
    by (meson not_le)
  have e1: "ecc < 1"
    using assms(2) by simp
  have dec: "(newton ecc M ^^ Suc k) M \<le> (newton ecc M ^^ k) M" if k1: "1 \<le> k" for k
  proof -
    obtain j where j: "k = Suc j"
      using k1 Suc_le_D [of 0 k] by auto
    have "0 \<le> kepler_residual ecc M ((newton ecc M ^^ Suc j) M)"
      using newton_invariant [OF assms] by blast
    then show ?thesis
      unfolding j using newton_decreasing [OF assms(1) e1] by simp
  qed
  have "\<forall>k. 1 \<le> k \<and> k \<le> 32 \<longrightarrow>
      1 / 10 \<le> (newton ecc M ^^ k) M - (newton ecc M ^^ Suc k) M"
  proof (intro allI impI)
    fix k :: nat
    assume k: "1 \<le> k \<and> k \<le> 32"
    then have "1 / 10 < \<bar>(newton ecc M ^^ k) M - (newton ecc M ^^ Suc k) M\<bar>"
      using big by simp
    then show "1 / 10 \<le> (newton ecc M ^^ k) M - (newton ecc M ^^ Suc k) M"
      using dec [of k] k by linarith
  qed
  then have "real 32 * (1 / 10) \<le> (newton ecc M ^^ 1) M - (newton ecc M ^^ Suc 32) M"
    by (rule steps_sum)
  moreover have "(newton ecc M ^^ 1) M \<le> pi"
    using newton_invariant [OF assms, of 0] by simp
  moreover have "M \<le> (newton ecc M ^^ Suc 32) M"
    using newton_invariant [OF assms, of 32] by blast
  ultimately have "32 / 10 \<le> pi"
    using assms(3) by simp
  then show False
    using pi_less_31417 by simp
qed

lemma newton_four_steps:
  assumes "0 \<le> ecc" "ecc \<le> 0.9" "\<bar>E - newton ecc M E\<bar> \<le> 0.1"
  shows "\<bar>(newton ecc M ^^ 4) E - (newton ecc M ^^ 5) E\<bar> \<le> 1 / 10 ^ 6"
proof -
  let ?N = "newton ecc M"
  have "\<bar>?N E - ?N (?N E)\<bar> \<le> 9 * (0.1\<^sup>2 / 2 + 0.1 ^ 3 / 6)"
    by (rule newton_next_step [OF assms])
  then have s1: "\<bar>?N E - ?N (?N E)\<bar> \<le> 0.0465"
    by (simp add: power_divide)
  have "\<bar>?N (?N E) - ?N (?N (?N E))\<bar> \<le> 9 * (0.0465\<^sup>2 / 2 + 0.0465 ^ 3 / 6)"
    by (rule newton_next_step [OF assms(1,2) s1])
  then have s2: "\<bar>?N (?N E) - ?N (?N (?N E))\<bar> \<le> 0.0099"
    by (simp add: power_divide)
  have "\<bar>?N (?N (?N E)) - ?N (?N (?N (?N E)))\<bar> \<le> 9 * (0.0099\<^sup>2 / 2 + 0.0099 ^ 3 / 6)"
    by (rule newton_next_step [OF assms(1,2) s2])
  then have s3: "\<bar>?N (?N (?N E)) - ?N (?N (?N (?N E)))\<bar> \<le> 0.000443"
    by (simp add: power_divide)
  have "\<bar>?N (?N (?N (?N E))) - ?N (?N (?N (?N (?N E))))\<bar>
          \<le> 9 * (0.000443\<^sup>2 / 2 + 0.000443 ^ 3 / 6)"
    by (rule newton_next_step [OF assms(1,2) s3])
  then have "\<bar>?N (?N (?N (?N E))) - ?N (?N (?N (?N (?N E))))\<bar> \<le> 1 / 10 ^ 6"
    by (simp add: power_divide)
  then show ?thesis
    by (simp add: eval_nat_numeral)
qed

lemma convergence_lower_half:
  assumes "0 \<le> ecc" "ecc \<le> 0.9" "0 \<le> M" "M \<le> pi"
  shows "\<exists>j<99. \<bar>(newton ecc M ^^ j) M - (newton ecc M ^^ Suc j) M\<bar> \<le> 1 / 10 ^ 6"
proof -
  obtain k where k: "k \<le> 32" "\<bar>(newton ecc M ^^ k) M - (newton ecc M ^^ Suc k) M\<bar> \<le> 0.1"
    using small_step_exists [OF assms] by blast
  have "\<bar>(newton ecc M ^^ 4) ((newton ecc M ^^ k) M)
          - (newton ecc M ^^ 5) ((newton ecc M ^^ k) M)\<bar> \<le> 1 / 10 ^ 6"
    using k(2) by (intro newton_four_steps [OF assms(1,2)]) simp
  then have "\<bar>(newton ecc M ^^ (4 + k)) M - (newton ecc M ^^ Suc (4 + k)) M\<bar> \<le> 1 / 10 ^ 6"
    by (simp add: funpow_add eval_nat_numeral)
  moreover have "4 + k < 99"
    using k(1) by simp
  ultimately show ?thesis
    by blast
qed

lemma newton_mirror: "newton ecc (2 * pi - M) (2 * pi - E) = 2 * pi - newton ecc M E"
proof -
  have c: "cos (2 * pi - E) = cos E"
    by (simp add: cos_diff)
  have "sin (2 * pi - E) = - sin E"
    by (simp add: sin_diff)
  then have h: "2 * pi - E - ecc * sin (2 * pi - E) - (2 * pi - M) = - (E - ecc * sin E - M)"
    by simp
  show ?thesis
    by (simp only: newton_def c h)
qed

lemma newton_iterate_mirror:
  "(newton ecc (2 * pi - M) ^^ k) (2 * pi - M) = 2 * pi - (newton ecc M ^^ k) M"
  by (induction k) (simp_all add: newton_mirror)

lemma convergence:
  assumes "0 \<le> ecc" "ecc \<le> 0.9" "0 \<le> M" "M < 2 * pi"
  shows "\<exists>j<99. \<bar>(newton ecc M ^^ j) M - (newton ecc M ^^ Suc j) M\<bar> \<le> 1 / 10 ^ 6"
proof (cases "M \<le> pi")
  case True
  then show ?thesis
    using assms by (intro convergence_lower_half) simp_all
next
  case False
  then have "0 \<le> 2 * pi - M" "2 * pi - M \<le> pi"
    using assms(4) by simp_all
  then obtain j where j: "j < 99"
    "\<bar>(newton ecc (2 * pi - M) ^^ j) (2 * pi - M)
      - (newton ecc (2 * pi - M) ^^ Suc j) (2 * pi - M)\<bar> \<le> 1 / 10 ^ 6"
    using convergence_lower_half [OF assms(1,2), of "2 * pi - M"] by blast
  have m: "(newton ecc (2 * pi - M) ^^ k) (2 * pi - M) = 2 * pi - (newton ecc M ^^ k) M" for k
    by (rule newton_iterate_mirror)
  have "\<bar>(newton ecc M ^^ j) M - (newton ecc M ^^ Suc j) M\<bar>
          = \<bar>(2 * pi - (newton ecc M ^^ j) M) - (2 * pi - (newton ecc M ^^ Suc j) M)\<bar>"
    by simp
  also have "\<dots> \<le> 1 / 10 ^ 6"
    using j(2) by (simp only: m)
  finally have "\<bar>(newton ecc M ^^ j) M - (newton ecc M ^^ Suc j) M\<bar> \<le> 1 / 10 ^ 6" .
  with j(1) show ?thesis
    by blast
qed

text \<open>
  C3: for every eccentricity \<open>e\<close> in \<open>[0, 0.9]\<close> and mean anomaly \<open>M\<close> in \<open>[0, 2\<pi>)\<close>, the
  loop of \<open>getOrbitPosition\<close> returns a finite eccentric anomaly \<open>E\<close> with
  \<open>|E - e sin E - M| < 1e-5\<close>.
\<close>

theorem kepler_solution:
  assumes "0 \<le> ecc" "ecc \<le> 0.9" "0 \<le> M" "M < 2 * pi"
  shows "\<exists>E. fst (kepler_loop (Fin ecc) (Fin M) (Fin M, Fin 1.0, 0)) = Fin E
              \<and> \<bar>E - ecc * sin E - M\<bar> < 1 / 10 ^ 5"
proof -
  have e1: "ecc < 1" "\<bar>ecc\<bar> < 1"
    using assms(1,2) by simp_all
  let ?E = "\<lambda>k. (newton ecc M ^^ k) M"
  obtain n where n:
    "kepler_loop (Fin ecc) (Fin M) (Fin M, Fin 1.0, 0) =
       (Fin (?E (Suc n)), Fin (?E n - ?E (Suc n)), Suc n)"
    "\<forall>k<n. 1 / 10 ^ 6 < \<bar>?E k - ?E (Suc k)\<bar>"
    "Suc n < 100 \<longrightarrow> \<bar>?E n - ?E (Suc n)\<bar> \<le> 1 / 10 ^ 6"
    using kepler_loop_Fin [OF e1(2), of M] by blast
  obtain j where j: "j < 99" "\<bar>?E j - ?E (Suc j)\<bar> \<le> 1 / 10 ^ 6"
    using convergence [OF assms] by blast
  have "\<not> j < n"
    using n(2) j(2) by (meson not_le)
  then have "Suc n < 100"
    using j(1) by simp
  then have small: "\<bar>?E n - newton ecc M (?E n)\<bar> \<le> 1 / 10 ^ 6"
    using n(3) by simp
  have "\<bar>kepler_residual ecc M (newton ecc M (?E n))\<bar>
          \<le> ecc * ((1 / 10 ^ 6)\<^sup>2 / 2 + (1 / 10 ^ 6) ^ 3 / 6)"
    by (rule newton_residual_bound [OF assms(1) e1(1) small])
  also have "\<dots> \<le> 1 * ((1 / 10 ^ 6)\<^sup>2 / 2 + (1 / 10 ^ 6) ^ 3 / 6)"
    using e1(1) by (intro mult_right_mono) simp_all
  also have "\<dots> < 1 / 10 ^ 5"
    by (simp add: power_divide)
  finally have "\<bar>?E (Suc n) - ecc * sin (?E (Suc n)) - M\<bar> < 1 / 10 ^ 5"
    by (simp add: kepler_residual_def)
  then show ?thesis
    using n(1) by auto
qed

theorem kepler_solution_witness:
  "\<exists>E. fst (kepler_loop (Fin 0.5) (Fin 1) (Fin 1, Fin 1.0, 0)) = Fin E
        \<and> \<bar>E - 0.5 * sin E - 1\<bar> < 1 / 10 ^ 5"
proof -
  have "(1 :: real) < 2 * pi"
    using pi_gt_31414 by simp
  then show ?thesis
    using kepler_solution [of "0.5" 1] by simp
qed

section \<open>The regression fixture\<close>

lemma fixture_M: "- 0.04334 \<le> rad (- 2.48284)" "rad (- 2.48284) \<le> - 0.04333"
  using pi_gt_31414 pi_less_31417 by (simp_all add: rad_def)

lemma fixture_E:
  fixes n :: nat
  defines "E \<equiv> (newton 0.0167 (rad (- 2.48284)) ^^ Suc n) (rad (- 2.48284))"
  shows "- 0.04467 \<le> E" and "E \<le> - 0.0420"
proof -
  let ?M = "rad (- 2.48284)"
  have "\<bar>E - ?M\<bar> \<le> 0.0167 * (\<bar>?M\<bar> + 2 * (0.0167 / (1 - 2 * 0.0167))) / (1 - 0.0167)"
    unfolding E_def by (rule newton_iterates_near) simp_all
  moreover have "\<bar>?M\<bar> \<le> 0.04334"
    using fixture_M by simp
  ultimately have "\<bar>E - ?M\<bar> \<le> 0.00133"
    by simp
  then show "- 0.04467 \<le> E" and "E \<le> - 0.0420"
    using fixture_M unfolding abs_le_iff by simp_all
qed

lemma fixture_cos_E:
  fixes E :: real
  assumes "- 0.04467 \<le> E" and "E \<le> - 0.0420"
  shows "0.999 \<le> cos E" and "cos E \<le> 1"
proof -
  have "\<bar>E\<bar> \<le> \<bar>0.04467\<bar>"
    using assms by simp
  then have "E\<^sup>2 \<le> 0.04467\<^sup>2"
    by (simp only: abs_le_square_iff)
  then show "0.999 \<le> cos E"
    using cos_ge_quadratic [of E] by (simp add: power2_eq_square)
  show "cos E \<le> 1"
    by simp
qed

lemma fixture_sin_E:
  fixes E :: real
  assumes "- 0.04467 \<le> E" and "E \<le> - 0.0420"
  shows "- 0.0447 \<le> sin E" and "sin E \<le> - 0.0419"
proof -
  have "\<bar>E\<bar> ^ 3 \<le> 0.04467 ^ 3"
    using assms by (intro power_mono) simp_all
  also have "\<dots> \<le> 0.00009"
    by (simp add: power_divide)
  finally have "\<bar>E\<bar> ^ 3 / 6 \<le> 0.00002"
    by simp
  then have "\<bar>sin E - E\<bar> \<le> 0.00002"
    using sin_cubic [of E] by (rule order_trans [rotated])
  then show "- 0.0447 \<le> sin E" and "sin E \<le> - 0.0419"
    using assms unfolding abs_le_iff by simp_all
qed

lemma fixture_sqrt: "0.9998 \<le> sqrt (1 - 0.0167\<^sup>2)" "sqrt (1 - 0.0167\<^sup>2) \<le> 1"
proof -
  show "0.9998 \<le> sqrt (1 - 0.0167\<^sup>2)"
    by (rule real_le_rsqrt) (simp add: power2_eq_square)
  show "sqrt (1 - 0.0167\<^sup>2) \<le> 1"
    by (rule real_le_lsqrt) (simp_all add: power2_eq_square)
qed

lemma fixture_w: "1.7966 \<le> rad 102.94719" "rad 102.94719 \<le> 1.7969"
  using pi_gt_31414 pi_less_31417 by (simp_all add: rad_def)

lemma cos_17966: "cos (1.7966 :: real) \<le> - 0.2238"
proof -
  have "1 - 1.7966^2 / 2 + 1.7966^4 / 24 - 1.7966^6 / 720 + 1.7966^8 / 40320
          - 1.7966^10 / 3628800 + 1.7966^12 / 479001600 \<le> (- 0.2238 :: real)"
    by (simp add: power_divide)
  then show ?thesis
    using cos_bounds12(2) [of "1.7966"] by linarith
qed

lemma cos_17969: "- 0.2243 \<le> cos (1.7969 :: real)"
proof -
  have "(- 0.2243 :: real) \<le> 1 - 1.7969^2 / 2 + 1.7969^4 / 24 - 1.7969^6 / 720 + 1.7969^8 / 40320
          - 1.7969^10 / 3628800 - 1.7969^12 / 479001600"
    by (simp add: power_divide)
  then show ?thesis
    using cos_bounds12(1) [of "1.7969"] by linarith
qed

lemma fixture_cos_w: "- 0.2243 \<le> cos (rad 102.94719)" "cos (rad 102.94719) \<le> - 0.2238"
proof -
  have pi: "(1.7969 :: real) \<le> pi"
    using pi_gt_31414 by simp
  have "cos 1.7969 \<le> cos (rad 102.94719)"
    using fixture_w pi by (intro cos_monotone_0_pi_le) simp_all
  then show "- 0.2243 \<le> cos (rad 102.94719)"
    using cos_17969 by linarith
  have "cos (rad 102.94719) \<le> cos 1.7966"
    using fixture_w pi by (intro cos_monotone_0_pi_le) simp_all
  then show "cos (rad 102.94719) \<le> - 0.2238"
    using cos_17966 by linarith
qed

lemma fixture_sin_w: "0.9745 \<le> sin (rad 102.94719)" "sin (rad 102.94719) \<le> 0.9747"
proof -
  let ?w = "rad 102.94719"
  have pos: "0 \<le> sin ?w"
    using fixture_w pi_gt_31414 by (intro sin_ge_zero) simp_all
  have "\<bar>cos ?w\<bar> \<le> \<bar>0.2243\<bar>" "\<bar>0.2238\<bar> \<le> \<bar>cos ?w\<bar>"
    using fixture_cos_w by simp_all
  then have "(cos ?w)\<^sup>2 \<le> 0.2243\<^sup>2" "0.2238\<^sup>2 \<le> (cos ?w)\<^sup>2"
    by (simp_all only: abs_le_square_iff)
  moreover have "(sin ?w)\<^sup>2 = 1 - (cos ?w)\<^sup>2"
    using sin_cos_squared_add [of ?w] by linarith
  ultimately have sq: "0.9745\<^sup>2 \<le> (sin ?w)\<^sup>2" "(sin ?w)\<^sup>2 \<le> 0.9747\<^sup>2"
    by (simp_all add: power2_eq_square)
  have "\<bar>0.9745\<bar> \<le> \<bar>sin ?w\<bar>" "\<bar>sin ?w\<bar> \<le> \<bar>0.9747\<bar>"
    using sq by (simp_all only: abs_le_square_iff)
  then show "0.9745 \<le> sin ?w" and "sin ?w \<le> 0.9747"
    using pos by simp_all
qed

lemma fixture_i: "0 \<le> sin (rad 0.00005)" "sin (rad 0.00005) \<le> 0.000001"
  "0.999999 \<le> cos (rad 0.00005)" "cos (rad 0.00005) \<le> 1"
proof -
  have i: "0 \<le> rad 0.00005" "rad 0.00005 \<le> 0.000001"
    using pi_gt_31414 pi_less_31417 by (simp_all add: rad_def)
  show "0 \<le> sin (rad 0.00005)"
    using i pi_gt_31414 by (intro sin_ge_zero) simp_all
  show "sin (rad 0.00005) \<le> 0.000001"
    using sin_x_le_x [OF i(1)] i(2) by linarith
  have "\<bar>rad 0.00005\<bar> \<le> \<bar>0.000001\<bar>"
    using i by simp
  then have "(rad 0.00005)\<^sup>2 \<le> 0.000001\<^sup>2"
    by (simp only: abs_le_square_iff)
  then show "0.999999 \<le> cos (rad 0.00005)"
    using cos_ge_quadratic [of "rad 0.00005"] by (simp add: power2_eq_square)
  show "cos (rad 0.00005) \<le> 1"
    by simp
qed

lemma fixture_ecliptic:
  fixes E :: real
  assumes "- 0.04467 \<le> E" and "E \<le> - 0.0420"
  shows "\<exists>xe ye ze. ecliptic fixture_elements E = (xe, ye, ze)
           \<and> - 0.1798 \<le> xe \<and> xe \<le> - 0.1762
           \<and> 0.9666 \<le> ye \<and> ye \<le> 0.9685
           \<and> 0 \<le> ze \<and> ze \<le> 0.000001"
proof -
  define cw where "cw = cos (rad 102.94719)"
  define sw where "sw = sin (rad 102.94719)"
  define ci where "ci = cos (rad 0.00005)"
  define si where "si = sin (rad 0.00005)"
  define X where "X = cos E - 0.0167"
  define nY where "nY = sqrt (1 - 0.0167\<^sup>2) * (- sin E)"
  define ncw where "ncw = - cw"
  define q where "q = sw * X + ncw * nY"
  have ecl: "ecliptic fixture_elements E = (sw * nY - ncw * X, ci * q, si * q)"
    by (simp add: ecliptic_def perifocal_def rot_z_def rot_x_def fixture_elements_def
        rad_def [of 0] cw_def sw_def ci_def si_def X_def nY_def ncw_def q_def algebra_simps)
  have X: "0.9823 \<le> X" "X \<le> 0.9833"
    using fixture_cos_E [OF assms] by (simp_all add: X_def)
  have nsin: "0.0419 \<le> - sin E" "- sin E \<le> 0.0447"
    using fixture_sin_E [OF assms] by simp_all
  have nY: "0.04189 \<le> nY" "nY \<le> 0.0447"
    using mult_bounds [OF _ fixture_sqrt(1) fixture_sqrt(2) _ nsin]
    by (simp_all add: nY_def)
  have ncw: "0.2238 \<le> ncw" "ncw \<le> 0.2243"
    using fixture_cos_w by (simp_all add: ncw_def cw_def)
  have sw: "0.9745 \<le> sw" "sw \<le> 0.9747"
    using fixture_sin_w by (simp_all add: sw_def)
  have a: "0.21983 \<le> ncw * X" "ncw * X \<le> 0.22056"
    using mult_bounds [OF _ ncw _ X] by simp_all
  have b: "0.04082 \<le> sw * nY" "sw * nY \<le> 0.04357"
    using mult_bounds [OF _ sw _ nY] by simp_all
  have c: "0.95725 \<le> sw * X" "sw * X \<le> 0.95843"
    using mult_bounds [OF _ sw _ X] by simp_all
  have d: "0.00937 \<le> ncw * nY" "ncw * nY \<le> 0.01003"
    using mult_bounds [OF _ ncw _ nY] by simp_all
  have q: "0.96662 \<le> q" "q \<le> 0.96846"
    using c d by (simp_all add: q_def)
  have ci: "0.999999 \<le> ci" "ci \<le> 1"
    using fixture_i by (simp_all add: ci_def)
  have si: "0 \<le> si" "si \<le> 0.000001"
    using fixture_i by (simp_all add: si_def)
  have ye: "0.9666 \<le> ci * q" "ci * q \<le> 0.9685"
    using mult_bounds [OF _ ci _ q] by simp_all
  have ze: "0 \<le> si * q" "si * q \<le> 0.000001"
    using mult_bounds [OF _ si(1) si(2) _ q(1) q(2)] mult_bounds [OF order_refl si _ q] by simp_all
  have xe: "- 0.1798 \<le> sw * nY - ncw * X" "sw * nY - ncw * X \<le> - 0.1762"
    using a b by simp_all
  show ?thesis
    using ecl xe ye ze by simp
qed

lemma fixture_mean_anomaly: "getMeanAnomaly fixture_elements 2451545.0 = Fin (- 2.48284)"
  by (simp add: getMeanAnomaly_def fixture_elements_def)

lemma fixture_position_bounds:
  "\<exists>px py pz.
     getOrbitPosition fixture_elements (getMeanAnomaly fixture_elements 2451545.0) =
       vec3 (Fin px) (Fin py) (Fin pz)
     \<and> - 0.1798 \<le> px \<and> px \<le> - 0.1762
     \<and> 0 \<le> py \<and> py \<le> 0.000001
     \<and> 0.9666 \<le> pz \<and> pz \<le> 0.9685"
proof -
  have e: "\<bar>el_e fixture_elements\<bar> < 1" "el_e fixture_elements = 0.0167"
    by (simp_all add: fixture_elements_def)
  obtain n where pos:
    "getOrbitPosition fixture_elements (Fin (- 2.48284)) =
       (case ecliptic fixture_elements
               ((newton 0.0167 (rad (- 2.48284)) ^^ Suc n) (rad (- 2.48284))) of
          (xe, ye, ze) \<Rightarrow> vec3 (Fin xe) (Fin ze) (Fin ye))"
    using getOrbitPosition_Fin [OF e(1), of "- 2.48284"] unfolding e(2) by blast
  obtain xe ye ze where
    "ecliptic fixture_elements ((newton 0.0167 (rad (- 2.48284)) ^^ Suc n) (rad (- 2.48284)))
       = (xe, ye, ze)"
    "- 0.1798 \<le> xe" "xe \<le> - 0.1762" "0.9666 \<le> ye" "ye \<le> 0.9685" "0 \<le> ze" "ze \<le> 0.000001"
    using fixture_ecliptic [OF fixture_E [of n]] by blast
  then show ?thesis
    unfolding fixture_mean_anomaly pos by auto
qed

text \<open>
  C6, as stated, fails: for the fixture at Julian Date 2451545.0 the first component of
  the position is negative, not near 0.98, and the third is above 0.9, not near 0.17.
\<close>

theorem fixture_position_counterexample:
  "js_gt (Fin 0)
     (vx (getOrbitPosition fixture_elements (getMeanAnomaly fixture_elements 2451545.0)))
   \<and> js_gt (vz (getOrbitPosition fixture_elements (getMeanAnomaly fixture_elements 2451545.0)))
       (Fin 0.9)"
proof -
  obtain px py pz where
    "getOrbitPosition fixture_elements (getMeanAnomaly fixture_elements 2451545.0) =
       vec3 (Fin px) (Fin py) (Fin pz)"
    "px \<le> - 0.1762" "0.9666 \<le> pz"
    using fixture_position_bounds by blast
  then show ?thesis
    by (simp add: vec3_def)
qed

text \<open>
  C6, amended: for the fixture at Julian Date 2451545.0 the mean anomaly is
  \<open>L - w = -2.48284\<close> degrees, and solving Kepler's equation and applying the orbit frame
  transform gives a position within 0.003 of \<open>(-0.177, 0, 0.967)\<close> in each component,
  before any scaling.
\<close>

theorem fixture_position:
  "getMeanAnomaly fixture_elements 2451545.0 = Fin (- 2.48284)
   \<and> (\<exists>px py pz.
        getOrbitPosition fixture_elements (getMeanAnomaly fixture_elements 2451545.0) =
          vec3 (Fin px) (Fin py) (Fin pz)
        \<and> \<bar>px - (- 0.177)\<bar> < 0.003 \<and> \<bar>py\<bar> < 0.00001 \<and> \<bar>pz - 0.967\<bar> < 0.003)"
proof -
  obtain px py pz where
    p: "getOrbitPosition fixture_elements (getMeanAnomaly fixture_elements 2451545.0) =
       vec3 (Fin px) (Fin py) (Fin pz)"
    and b: "- 0.1798 \<le> px" "px \<le> - 0.1762" "0 \<le> py" "py \<le> 0.000001"
      "0.9666 \<le> pz" "pz \<le> 0.9685"
    using fixture_position_bounds by blast
  have "\<bar>px - (- 0.177)\<bar> < 0.003" "\<bar>py\<bar> < 0.00001" "\<bar>pz - 0.967\<bar> < 0.003"
    using b unfolding abs_less_iff by simp_all
  with p show ?thesis
    using fixture_mean_anomaly by blast
qed

section \<open>The position of a satellite\<close>

lemma fixture_satellite_fields:
  "elements fixture_satellite = fixture_elements" "\<not> isStar fixture_satellite"
  "distanceFactor fixture_satellite = Some 50"
  by (simp_all add: fixture_satellite_def Moon_def)

text \<open>
  C9, as stated, fails twice, on the fixture satellite under a parent of scale 0.065. With
  a configured \<open>distanceFactor\<close> of 0 the first component of the position is negative,
  while the claim's product with that factor is 0. Flagged \<open>isStar\<close>, the satellite keeps
  the position it was created with, while the claim's product is negative.
\<close>

theorem satellite_position_counterexample:
  "js_gt (Fin 0)
     (vx (position (mesh (updateBodyPhysics DEFAULTS (Some fixture_parent) 2451545.0 0
        (BodyObj new_Mesh (fixture_satellite\<lparr>distanceFactor := Some 0\<rparr>) None [])))))
   \<and> js_div
       (js_mul
          (js_mul (vx (getOrbitPosition fixture_elements (getMeanAnomaly fixture_elements 2451545.0)))
             (Fin (universeScale DEFAULTS)))
          (Fin 0))
       (vx (scale fixture_parent)) = Fin 0
   \<and> position (mesh (updateBodyPhysics DEFAULTS (Some fixture_parent) 2451545.0 0
        (BodyObj new_Mesh (fixture_satellite\<lparr>isStar := True\<rparr>) None []))) = origin
   \<and> js_gt (Fin 0)
       (js_div
          (js_mul
             (js_mul
                (vx (getOrbitPosition fixture_elements (getMeanAnomaly fixture_elements 2451545.0)))
                (Fin (universeScale DEFAULTS)))
             (Fin 50))
          (vx (scale fixture_parent)))"
proof -
  obtain px py pz where
    pos: "getOrbitPosition fixture_elements (getMeanAnomaly fixture_elements 2451545.0) =
       vec3 (Fin px) (Fin py) (Fin pz)"
    and px: "px \<le> - 0.1762"
    using fixture_position_bounds by blast
  have c: "vx (getOrbitPosition fixture_elements (getMeanAnomaly fixture_elements 2451545)) = Fin px"
    "vy (getOrbitPosition fixture_elements (getMeanAnomaly fixture_elements 2451545)) = Fin py"
    "vz (getOrbitPosition fixture_elements (getMeanAnomaly fixture_elements 2451545)) = Fin pz"
    using pos by (simp_all add: vec3_def)
  have neg: "px * 2 * 50 / 0.065 < 0"
    using px by simp
  have zero: "position (mesh (updateBodyPhysics DEFAULTS (Some fixture_parent) 2451545.0 0
        (BodyObj new_Mesh (fixture_satellite\<lparr>distanceFactor := Some 0\<rparr>) None []))) =
      vec3 (Fin (px * 2 * 50 / 0.065)) (Fin (py * 2 * 50 / 0.065)) (Fin (pz * 2 * 50 / 0.065))"
    by (simp add: mesh_updateBodyPhysics body_pose_position_sat divide_def multiplyScalar_def
        fixture_satellite_fields c vec3_def DEFAULTS_def fixture_parent_def
        SATELLITE_DIST_FACTOR_def)
  have star: "position (mesh (updateBodyPhysics DEFAULTS (Some fixture_parent) 2451545.0 0
        (BodyObj new_Mesh (fixture_satellite\<lparr>isStar := True\<rparr>) None []))) = origin"
    by (simp add: mesh_updateBodyPhysics body_pose_star_position new_Mesh_def origin_def)
  show ?thesis
    unfolding zero star using neg
    by (simp add: c vec3_def DEFAULTS_def fixture_parent_def)
qed

text \<open>
  C9, amended: for a body that is not flagged \<open>isStar\<close>, the position written by the pose
  update is, when the parent is a mesh, the orbit position multiplied by \<open>universeScale\<close>,
  then by the distance factor (the body's \<open>distanceFactor\<close> when it is set and not 0, and
  50.0 when it is absent or 0), then divided component by component by the parent's
  scale; when the parent is the scene, it is the orbit position multiplied by
  \<open>universeScale\<close> only. A body flagged \<open>isStar\<close> keeps its position.
\<close>

theorem satellite_position:
  "(\<not> isStar d \<longrightarrow>
      (let pos = getOrbitPosition (elements d) (getMeanAnomaly (elements d) jd);
           U = Fin (universeScale S);
           f = (case distanceFactor d of
                  None \<Rightarrow> Fin 50.0
                | Some c \<Rightarrow> if c = 0 then Fin 50.0 else Fin c)
       in position (mesh (updateBodyPhysics S (Some p) jd h (BodyObj m d line sats))) =
            vec3 (js_div (js_mul (js_mul (vx pos) U) f) (vx (scale p)))
                 (js_div (js_mul (js_mul (vy pos) U) f) (vy (scale p)))
                 (js_div (js_mul (js_mul (vz pos) U) f) (vz (scale p)))
          \<and> position (mesh (updateBodyPhysics S None jd h (BodyObj m d line sats))) =
            vec3 (js_mul (vx pos) U) (js_mul (vy pos) U) (js_mul (vz pos) U)))
   \<and> (isStar d \<longrightarrow>
      position (mesh (updateBodyPhysics S parent jd h (BodyObj m d line sats))) = position m)"
proof -
  have f: "js_or_default (map_option Fin (distanceFactor d)) SATELLITE_DIST_FACTOR =
          (case distanceFactor d of
             None \<Rightarrow> Fin 50.0
           | Some c \<Rightarrow> if c = 0 then Fin 50.0 else Fin c)"
    by (cases "distanceFactor d") (simp_all add: SATELLITE_DIST_FACTOR_def)
  have sat: "position (mesh (updateBodyPhysics S (Some p) jd h (BodyObj m d line sats))) =
      (let pos = getOrbitPosition (elements d) (getMeanAnomaly (elements d) jd);
           U = Fin (universeScale S);
           f = js_or_default (map_option Fin (distanceFactor d)) SATELLITE_DIST_FACTOR
       in vec3 (js_div (js_mul (js_mul (vx pos) U) f) (vx (scale p)))
               (js_div (js_mul (js_mul (vy pos) U) f) (vy (scale p)))
               (js_div (js_mul (js_mul (vz pos) U) f) (vz (scale p))))"
    if "\<not> isStar d"
    using that
    by (simp add: mesh_updateBodyPhysics body_pose_position_sat divide_def multiplyScalar_def
        vec3_def Let_def del: js_or_default.simps)
  have top: "position (mesh (updateBodyPhysics S None jd h (BodyObj m d line sats))) =
      (let pos = getOrbitPosition (elements d) (getMeanAnomaly (elements d) jd);
           U = Fin (universeScale S)
       in vec3 (js_mul (vx pos) U) (js_mul (vy pos) U) (js_mul (vz pos) U))"
    if "\<not> isStar d"
    using that
    by (simp add: mesh_updateBodyPhysics body_pose_position_top multiplyScalar_def vec3_def
        Let_def)
  have star: "position (mesh (updateBodyPhysics S parent jd h (BodyObj m d line sats))) =
      position m" if "isStar d"
    using that by (simp add: mesh_updateBodyPhysics body_pose_star_position)
  show ?thesis
    using sat top star unfolding f by (auto simp: Let_def)
qed

theorem satellite_position_witness:
  "\<not> isStar fixture_satellite
   \<and> js_gt (Fin (- 271))
       (vx (position (mesh (updateBodyPhysics DEFAULTS (Some fixture_parent) 2451545.0 0
          (BodyObj new_Mesh fixture_satellite None [])))))
   \<and> js_gt
       (vx (position (mesh (updateBodyPhysics DEFAULTS (Some fixture_parent) 2451545.0 0
          (BodyObj new_Mesh fixture_satellite None [])))))
       (Fin (- 277))
   \<and> js_gt (Fin (- 0.35))
       (vx (position (mesh (updateBodyPhysics DEFAULTS None 2451545.0 0
          (BodyObj new_Mesh fixture_satellite None [])))))
   \<and> js_gt
       (vx (position (mesh (updateBodyPhysics DEFAULTS None 2451545.0 0
          (BodyObj new_Mesh fixture_satellite None [])))))
       (Fin (- 0.36))
   \<and> isStar Sun
   \<and> position (mesh (updateBodyPhysics DEFAULTS (Some fixture_parent) 2451545.0 0
        (BodyObj (new_Mesh\<lparr>position := vec3 (Fin 1) (Fin 2) (Fin 3)\<rparr>) Sun None [])))
       = vec3 (Fin 1) (Fin 2) (Fin 3)"
proof -
  obtain px py pz where
    pos: "getOrbitPosition fixture_elements (getMeanAnomaly fixture_elements 2451545.0) =
       vec3 (Fin px) (Fin py) (Fin pz)"
    and px: "- 0.1798 \<le> px" "px \<le> - 0.1762"
    using fixture_position_bounds by blast
  have c: "vx (getOrbitPosition fixture_elements (getMeanAnomaly fixture_elements 2451545)) = Fin px"
    "vy (getOrbitPosition fixture_elements (getMeanAnomaly fixture_elements 2451545)) = Fin py"
    "vz (getOrbitPosition fixture_elements (getMeanAnomaly fixture_elements 2451545)) = Fin pz"
    using pos by (simp_all add: vec3_def)
  have b: "px * 2 * 50 / 0.065 < - 271" "- 277 < px * 2 * 50 / 0.065"
    "px * 2 < - 0.35" "- 0.36 < px * 2"
    using px by simp_all
  have star: "isStar Sun"
    by (simp add: Sun_def)
  show ?thesis
    using satellite_position [where d = fixture_satellite and S = DEFAULTS and p = fixture_parent
        and jd = "2451545.0" and h = 0 and m = new_Mesh and line = None and sats = "[]"
        and parent = None]
      satellite_position [where d = Sun and S = DEFAULTS and p = fixture_parent
        and jd = "2451545.0" and h = 0
        and m = "new_Mesh\<lparr>position := vec3 (Fin 1) (Fin 2) (Fin 3)\<rparr>"
        and line = None and sats = "[]" and parent = "Some fixture_parent"]
      b star
    by (simp add: fixture_satellite_fields c vec3_def DEFAULTS_def fixture_parent_def Let_def)
qed

end
